theory Spec2Isabelle
  imports Complex_Main "HOL-Library.Sublist"
begin

section \<open>The execution runner of app/streamlit_app.py\<close>

text \<open>
  The runner (\<^verbatim>\<open>run_python\<close>, \<^verbatim>\<open>run_cpp\<close>, \<^verbatim>\<open>run_java\<close>, \<^verbatim>\<open>run_code\<close>) writes the
  submitted source into a temporary directory, starts the toolchain as subprocesses and
  returns a dictionary with the keys \<^verbatim>\<open>ok\<close>, \<^verbatim>\<open>stdout\<close>, \<^verbatim>\<open>stderr\<close>, \<^verbatim>\<open>time_s\<close> and
  \<^verbatim>\<open>compile_time_s\<close>. Everything the functions do to the outside (the file system, the
  processes, the clock) is explicit here: an environment \<open>env\<close> answers what the outside
  would answer, and a \<open>world\<close> is threaded through every call and records what was done.

  A Python \<^verbatim>\<open>str\<close> is a list of code points. It is a \<open>string\<close> here, each \<open>char\<close> read as
  the code point of the same number, so the texts of the model are those over the code
  points 0 to 255.
\<close>

subsection \<open>Values\<close>

text \<open>
  \<^verbatim>\<open>time_s\<close> holds a float (\<^verbatim>\<open>0.0\<close>, or a difference of two readings of
  \<^verbatim>\<open>time.perf_counter()\<close>) or, on the time-out path of \<^verbatim>\<open>run_python\<close>, the integer
  \<^verbatim>\<open>timeout_s\<close> itself. Floats are reals here: the rounding of the one subtraction is
  not modelled.
\<close>

datatype pynum = PyFloat real | PyInt int

record result =
  ok :: bool
  stdout :: string
  stderr :: string
  time_s :: pynum
  compile_time_s :: pynum

text \<open>The exceptions a call of the runner can meet, and the three ways a call can end.\<close>

datatype exn = TimeoutExpired | OSError | UnicodeDecodeError | OverflowError

datatype 'a outcome = Returns 'a | Raises exn | Diverges

subsection \<open>The outside\<close>

text \<open>
  One call of \<^verbatim>\<open>subprocess.run\<close>: the argument vector, the \<^verbatim>\<open>timeout=\<close> keyword
  (\<open>None\<close> when the call passes none) and the \<^verbatim>\<open>cwd=\<close> keyword. Every call of the
  source passes \<^verbatim>\<open>capture_output=True, text=True\<close>, which is therefore not a field.
\<close>

record invocation =
  argv :: "string list"
  timeout :: "int option"
  cwd :: "string option"

record completed =
  returncode :: int
  cp_stdout :: string
  cp_stderr :: string

text \<open>
  What a call does to the outside, in order: it makes and removes the temporary
  directory, writes a file, reads the clock (the event holds the reading) and starts a
  process.
\<close>

datatype event =
    MkTemp string
  | WriteText string string
  | ReadClock real
  | Spawn invocation
  | RmTree string

text \<open>
  What a process does once asked to start. \<open>Exits x c rc out err\<close>: the child exits
  after \<open>x\<close> seconds with status \<open>rc\<close>, having written the bytes \<open>out\<close> and
  \<open>err\<close> to its two pipes, and the pipes are at end of file after \<open>c\<close> seconds, or
  never (\<open>None\<close>) when a descendant that inherited them keeps them open.
  \<open>Hangs\<close>: the child never exits. \<open>Cannot_start\<close>: there is no child (the
  executable is missing or may not be executed).
\<close>

datatype behaviour = Exits real "real option" int string string | Hangs | Cannot_start

text \<open>
  \<open>decode\<close> is the text encoding of the platform, the one \<^verbatim>\<open>text=True\<close> reads the
  captured bytes in: the text of the bytes, or nothing when the bytes are not valid in it.
\<close>

record env =
  on_path :: "string \<Rightarrow> bool"
  os_name :: string
  sys_executable :: string
  tmpdir :: string
  proc :: "string list \<Rightarrow> behaviour"
  proc_files :: "string list \<Rightarrow> string list"
  clock :: "nat \<Rightarrow> real"
  write_fails :: "string \<Rightarrow> bool"
  decode :: "string \<Rightarrow> string option"

record world =
  files :: "string list"
  trace :: "event list"
  ticks :: nat

type_synonym 'a io = "world \<Rightarrow> 'a outcome \<times> world"

definition ret :: "'a \<Rightarrow> 'a io" where
  "ret a w = (Returns a, w)"

definition io_bind :: "'a io \<Rightarrow> ('a \<Rightarrow> 'b io) \<Rightarrow> 'b io" where
  "io_bind m f w =
     (case m w of
        (Returns a, w') \<Rightarrow> f a w'
      | (Raises x, w') \<Rightarrow> (Raises x, w')
      | (Diverges, w') \<Rightarrow> (Diverges, w'))"

text \<open>\<^verbatim>\<open>try: m except x: h\<close>\<close>

definition try_except :: "'a io \<Rightarrow> exn \<Rightarrow> 'a io \<Rightarrow> 'a io" where
  "try_except m x h w =
     (case m w of
        (Raises y, w') \<Rightarrow> if y = x then h w' else (Raises y, w')
      | r \<Rightarrow> r)"

subsection \<open>Paths\<close>

text \<open>
  \<^verbatim>\<open>str(Path(td) / name)\<close>: the directory, the separator of the platform, the name
  (\<^verbatim>\<open>tempfile\<close> gives a directory name with no trailing separator). \<open>basename\<close> is
  \<^verbatim>\<open>Path.name\<close>; \<open>inside\<close> is what \<^verbatim>\<open>shutil.rmtree\<close> removes.
\<close>

definition sep :: "env \<Rightarrow> string" where
  "sep e = (if os_name e = ''nt'' then [CHR 0x5C] else ''/'')"

definition path_join :: "env \<Rightarrow> string \<Rightarrow> string \<Rightarrow> string" where
  "path_join e d n = d @ sep e @ n"

definition basename :: "env \<Rightarrow> string \<Rightarrow> string" where
  "basename e p = rev (takeWhile (\<lambda>c. [c] \<noteq> sep e) (rev p))"

definition inside :: "env \<Rightarrow> string \<Rightarrow> string \<Rightarrow> bool" where
  "inside e d p \<longleftrightarrow> p = d \<or> prefix (d @ sep e) p"

subsection \<open>The library calls\<close>

text \<open>\<^verbatim>\<open>shutil.which(cmd) is not None\<close>\<close>

definition which :: "env \<Rightarrow> string \<Rightarrow> bool" where
  "which e cmd = on_path e cmd"

text \<open>\<^verbatim>\<open>time.perf_counter()\<close>: the next reading of the clock.\<close>

definition perf_counter :: "env \<Rightarrow> real io" where
  "perf_counter e w =
     (Returns (clock e (ticks w)),
      w\<lparr>trace := trace w @ [ReadClock (clock e (ticks w))], ticks := Suc (ticks w)\<rparr>)"

definition write_text :: "env \<Rightarrow> string \<Rightarrow> string \<Rightarrow> unit io" where
  "write_text e f s w =
     (let w1 = w\<lparr>trace := trace w @ [WriteText f s]\<rparr>
      in if write_fails e f then (Raises OSError, w1)
         else (Returns (), w1\<lparr>files := files w1 @ [f]\<rparr>))"

text \<open>
  \<^verbatim>\<open>subprocess.run(argv, capture_output=True, text=True, timeout=..., cwd=...)\<close>, as the
  library does it on a POSIX platform.
  \<^item> The child is started first; when that fails the call raises \<^verbatim>\<open>OSError\<close>.
  \<^item> With a time-out the library waits on the pipes with \<^verbatim>\<open>poll\<close>, whose time-out is a
    number of milliseconds in a C \<^verbatim>\<open>int\<close>: a time-out above 2147483 seconds raises
    \<^verbatim>\<open>OverflowError\<close> at the first wait.
  \<^item> The call is over when both pipes are at end of file and the child has exited. With a
    time-out shorter than that it kills the child and raises \<^verbatim>\<open>TimeoutExpired\<close>; with
    none it waits, for ever when that moment never comes.
  \<^item> \<^verbatim>\<open>text=True\<close>: each captured stream is decoded in the platform's encoding
    (\<^verbatim>\<open>UnicodeDecodeError\<close> when its bytes are not valid) and \<^verbatim>\<open>\r\n\<close> and \<^verbatim>\<open>\r\<close>
    become \<^verbatim>\<open>\n\<close>.
\<close>

fun translate_newlines :: "string \<Rightarrow> string" where
  "translate_newlines [] = []"
| "translate_newlines [c] = (if c = CHR 0x0D then [CHR 0x0A] else [c])"
| "translate_newlines (c # d # cs) =
     (if c = CHR 0x0D \<and> d = CHR 0x0A then CHR 0x0A # translate_newlines cs
      else if c = CHR 0x0D then CHR 0x0A # translate_newlines (d # cs)
      else c # translate_newlines (d # cs))"

definition captured :: "env \<Rightarrow> string \<Rightarrow> string option" where
  "captured e bytes = map_option translate_newlines (decode e bytes)"

definition text_mode :: "env \<Rightarrow> int \<Rightarrow> string \<Rightarrow> string \<Rightarrow> completed outcome" where
  "text_mode e rc out err =
     (case captured e out of
        None \<Rightarrow> Raises UnicodeDecodeError
      | Some so \<Rightarrow>
          (case captured e err of
             None \<Rightarrow> Raises UnicodeDecodeError
           | Some se \<Rightarrow> Returns \<lparr>returncode = rc, cp_stdout = so, cp_stderr = se\<rparr>))"

definition timeout_max :: int where
  "timeout_max = 2147483"

text \<open>What the call gives back.\<close>

definition run_outcome :: "env \<Rightarrow> invocation \<Rightarrow> completed outcome" where
  "run_outcome e call =
     (case proc e (argv call) of
        Cannot_start \<Rightarrow> Raises OSError
      | Hangs \<Rightarrow>
          (case timeout call of
             None \<Rightarrow> Diverges
           | Some t \<Rightarrow> if timeout_max < t then Raises OverflowError else Raises TimeoutExpired)
      | Exits x c rc out err \<Rightarrow>
          (case timeout call of
             None \<Rightarrow>
               (case c of
                  None \<Rightarrow> Diverges
                | Some c' \<Rightarrow> text_mode e rc out err)
           | Some t \<Rightarrow>
               if timeout_max < t then Raises OverflowError
               else (case c of
                       None \<Rightarrow> Raises TimeoutExpired
                     | Some c' \<Rightarrow>
                         if real_of_int t < max x c' then Raises TimeoutExpired
                         else text_mode e rc out err)))"

text \<open>What the call does to the world: a child that could be started leaves its files.\<close>

definition subprocess_run :: "env \<Rightarrow> invocation \<Rightarrow> completed io" where
  "subprocess_run e call w =
     (run_outcome e call,
      w\<lparr>trace := trace w @ [Spawn call],
        files := files w @
          (if proc e (argv call) = Cannot_start then [] else proc_files e (argv call))\<rparr>)"

text \<open>
  \<^verbatim>\<open>with tempfile.TemporaryDirectory() as td: body\<close>: the directory is made, the body
  runs, and the directory goes with all it holds however the body ends, by a return or
  by an exception. A body that never ends never reaches the removal. The making and the
  removal themselves are taken to succeed.
\<close>

definition with_tempdir :: "env \<Rightarrow> (string \<Rightarrow> 'a io) \<Rightarrow> 'a io" where
  "with_tempdir e body w =
     (let td = tmpdir e;
          w1 = w\<lparr>files := files w @ [td], trace := trace w @ [MkTemp td]\<rparr>
      in case body td w1 of
           (Diverges, w2) \<Rightarrow> (Diverges, w2)
         | (r, w2) \<Rightarrow>
             (r, w2\<lparr>files := filter (\<lambda>p. \<not> inside e td p) (files w2),
                     trace := trace w2 @ [RmTree td]\<rparr>))"

subsection \<open>The regular expression of \<^verbatim>\<open>run_java\<close>\<close>

text \<open>
  \<^verbatim>\<open>re.search(r"public\s+class\s+([A-Za-z_]\w*)", code)\<close>. The pattern is a sequence
  of atoms: a literal character, one character of a class, a greedy repetition of a class
  (zero or more), and the two ends of the capturing group. \<^verbatim>\<open>\s+\<close> is one \<^verbatim>\<open>\s\<close>
  and then \<^verbatim>\<open>\s*\<close>.

  The classes are those of Python's \<^verbatim>\<open>re\<close> on \<^verbatim>\<open>str\<close> patterns: \<^verbatim>\<open>\s\<close> is
  \<^verbatim>\<open>str.isspace\<close>, \<^verbatim>\<open>\w\<close> is \<^verbatim>\<open>str.isalnum\<close> or the underscore, and the bracket
  \<^verbatim>\<open>[A-Za-z_]\<close> is a set of ASCII characters. They are given by the numbers of the
  code points, for the code points 0 to 255.
\<close>

definition is_space :: "char \<Rightarrow> bool" where
  "is_space c \<longleftrightarrow>
     (let n = (of_char c :: nat)
      in (9 \<le> n \<and> n \<le> 13) \<or> (28 \<le> n \<and> n \<le> 32) \<or> n = 133 \<or> n = 160)"

definition is_ident_start :: "char \<Rightarrow> bool" where
  "is_ident_start c \<longleftrightarrow>
     (let n = (of_char c :: nat)
      in (65 \<le> n \<and> n \<le> 90) \<or> (97 \<le> n \<and> n \<le> 122) \<or> n = 95)"

definition is_word :: "char \<Rightarrow> bool" where
  "is_word c \<longleftrightarrow>
     (let n = (of_char c :: nat)
      in (48 \<le> n \<and> n \<le> 57) \<or> (65 \<le> n \<and> n \<le> 90) \<or> n = 95 \<or> (97 \<le> n \<and> n \<le> 122)
         \<or> n = 170 \<or> n = 178 \<or> n = 179 \<or> n = 181 \<or> n = 185 \<or> n = 186
         \<or> (188 \<le> n \<and> n \<le> 190) \<or> (192 \<le> n \<and> n \<le> 214)
         \<or> (216 \<le> n \<and> n \<le> 246) \<or> (248 \<le> n \<and> n \<le> 255))"

datatype atom =
    Chr char
  | Cls "char \<Rightarrow> bool"
  | Many "char \<Rightarrow> bool"
  | GOpen
  | GClose

text \<open>
  The capture under construction: whether the group is open, and the text consumed
  inside it so far.
\<close>

fun consume :: "char \<Rightarrow> bool \<times> string \<Rightarrow> bool \<times> string" where
  "consume x (opened, g) = (opened, if opened then g @ [x] else g)"

text \<open>
  The backtracking matcher, anchored at the start of the text: a greedy repetition takes
  one more character first and falls back to taking none when the rest of the pattern
  then fails. The result is the text of group 1.
\<close>

fun bt :: "atom list \<Rightarrow> string \<Rightarrow> bool \<times> string \<Rightarrow> string option" where
  "bt [] s g = Some (snd g)"
| "bt (Chr c # as) [] g = None"
| "bt (Chr c # as) (x # xs) g = (if x = c then bt as xs (consume x g) else None)"
| "bt (Cls P # as) [] g = None"
| "bt (Cls P # as) (x # xs) g = (if P x then bt as xs (consume x g) else None)"
| "bt (Many P # as) [] g = bt as [] g"
| "bt (Many P # as) (x # xs) g =
     (if P x
      then (case bt (Many P # as) xs (consume x g) of
              Some r \<Rightarrow> Some r
            | None \<Rightarrow> bt as (x # xs) g)
      else bt as (x # xs) g)"
| "bt (GOpen # as) s g = bt as s (True, [])"
| "bt (GClose # as) s g = bt as s (False, snd g)"

text \<open>\<^verbatim>\<open>re.search\<close>: the leftmost start at which the pattern matches, the end of the text included.\<close>

fun re_search :: "atom list \<Rightarrow> string \<Rightarrow> string option" where
  "re_search p [] = bt p [] (False, [])"
| "re_search p (x # xs) =
     (case bt p (x # xs) (False, []) of
        Some g \<Rightarrow> Some g
      | None \<Rightarrow> re_search p xs)"

definition public_class_re :: "atom list" where
  "public_class_re =
     map Chr ''public'' @ [Cls is_space, Many is_space] @
     map Chr ''class'' @ [Cls is_space, Many is_space] @
     [GOpen, Cls is_ident_start, Many is_word, GClose]"

text \<open>\<^verbatim>\<open>cname = m.group(1) if m else "Main"\<close>\<close>

definition java_class_name :: "string \<Rightarrow> string" where
  "java_class_name code =
     (case re_search public_class_re code of Some n \<Rightarrow> n | None \<Rightarrow> ''Main'')"

subsection \<open>The runners\<close>

text \<open>
  \<^verbatim>\<open>sys.executable or "python"\<close>: an interpreter path that is \<^verbatim>\<open>None\<close> or empty
  (both false in Python) is the empty string of the environment.
\<close>

definition python_exe :: "env \<Rightarrow> string" where
  "python_exe e = (if sys_executable e = [] then ''python'' else sys_executable e)"

definition run_python :: "env \<Rightarrow> string \<Rightarrow> int \<Rightarrow> result io" where
  "run_python e code timeout_s =
     with_tempdir e (\<lambda>td.
       let f = path_join e td ''main.py'' in
       io_bind (write_text e f code) (\<lambda>_.
       io_bind (perf_counter e) (\<lambda>t0.
       try_except
         (io_bind (subprocess_run e
                     \<lparr>argv = [python_exe e, ''-u'', f], timeout = Some timeout_s, cwd = None\<rparr>) (\<lambda>p.
          io_bind (perf_counter e) (\<lambda>t1.
          ret \<lparr>ok = (returncode p = 0), stdout = cp_stdout p, stderr = cp_stderr p,
               time_s = PyFloat (t1 - t0), compile_time_s = PyFloat 0\<rparr>)))
         TimeoutExpired
         (ret \<lparr>ok = False, stdout = [], stderr = ''Timeout'',
               time_s = PyInt timeout_s, compile_time_s = PyFloat 0\<rparr>))))"

definition run_cpp :: "env \<Rightarrow> string \<Rightarrow> int \<Rightarrow> result io" where
  "run_cpp e code timeout_s =
     (if \<not> which e ''g++''
      then ret \<lparr>ok = False, stdout = [], stderr = ''g++ not found on PATH.'',
                time_s = PyFloat 0, compile_time_s = PyFloat 0\<rparr>
      else with_tempdir e (\<lambda>td.
        let cpp = path_join e td ''main.cpp'';
            exe = path_join e td (if os_name e = ''nt'' then ''main.exe'' else ''main'') in
        io_bind (write_text e cpp code) (\<lambda>_.
        io_bind (perf_counter e) (\<lambda>ct0.
        io_bind (subprocess_run e
                   \<lparr>argv = [''g++'', ''-O2'', ''-std=c++17'', cpp, ''-o'', exe],
                    timeout = None, cwd = None\<rparr>) (\<lambda>comp.
        io_bind (perf_counter e) (\<lambda>ct1.
        let ct = ct1 - ct0 in
        if returncode comp \<noteq> 0
        then ret \<lparr>ok = False, stdout = cp_stdout comp, stderr = cp_stderr comp,
                  time_s = PyFloat 0, compile_time_s = PyFloat ct\<rparr>
        else
        io_bind (perf_counter e) (\<lambda>t0.
        io_bind (subprocess_run e \<lparr>argv = [exe], timeout = Some timeout_s, cwd = None\<rparr>) (\<lambda>run.
        io_bind (perf_counter e) (\<lambda>t1.
        ret \<lparr>ok = (returncode run = 0), stdout = cp_stdout run, stderr = cp_stderr run,
             time_s = PyFloat (t1 - t0), compile_time_s = PyFloat ct\<rparr>)))))))))"

definition run_java :: "env \<Rightarrow> string \<Rightarrow> int \<Rightarrow> result io" where
  "run_java e code timeout_s =
     (if \<not> (which e ''javac'' \<and> which e ''java'')
      then ret \<lparr>ok = False, stdout = [], stderr = ''javac/java not found on PATH.'',
                time_s = PyFloat 0, compile_time_s = PyFloat 0\<rparr>
      else
        let cname = java_class_name code in
        with_tempdir e (\<lambda>td.
        let src = path_join e td (cname @ ''.java'') in
        io_bind (write_text e src code) (\<lambda>_.
        io_bind (perf_counter e) (\<lambda>ct0.
        io_bind (subprocess_run e
                   \<lparr>argv = [''javac'', src], timeout = None, cwd = Some td\<rparr>) (\<lambda>comp.
        io_bind (perf_counter e) (\<lambda>ct1.
        let ct = ct1 - ct0 in
        if returncode comp \<noteq> 0
        then ret \<lparr>ok = False, stdout = cp_stdout comp, stderr = cp_stderr comp,
                  time_s = PyFloat 0, compile_time_s = PyFloat ct\<rparr>
        else
        io_bind (perf_counter e) (\<lambda>t0.
        io_bind (subprocess_run e
                   \<lparr>argv = [''java'', ''-cp'', td, cname], timeout = Some timeout_s, cwd = None\<rparr>) (\<lambda>run.
        io_bind (perf_counter e) (\<lambda>t1.
        ret \<lparr>ok = (returncode run = 0), stdout = cp_stdout run, stderr = cp_stderr run,
             time_s = PyFloat (t1 - t0), compile_time_s = PyFloat ct\<rparr>)))))))))"

definition run_code :: "env \<Rightarrow> string \<Rightarrow> string \<Rightarrow> int \<Rightarrow> result io" where
  "run_code e lang code timeout_s =
     (if lang = ''Python'' then run_python e code timeout_s
      else if lang = ''C++'' then run_cpp e code timeout_s
      else if lang = ''Java'' then run_java e code timeout_s
      else ret \<lparr>ok = False, stdout = [], stderr = ''Unsupported: '' @ lang,
                time_s = PyFloat 0, compile_time_s = PyFloat 0\<rparr>)"

text \<open>The processes a call has started, in order.\<close>

fun spawned :: "event list \<Rightarrow> invocation list" where
  "spawned [] = []"
| "spawned (Spawn i # es) = i # spawned es"
| "spawned (_ # es) = spawned es"

subsection \<open>Vocabulary of the statements\<close>

text \<open>
  The file a call writes, the tools it asks for, and the two calls of
  \<^verbatim>\<open>subprocess.run\<close> as the source spells them, named per language so that the
  statements below can speak of "the compile call" and "the run call".
\<close>

definition source_name :: "string \<Rightarrow> string \<Rightarrow> string" where
  "source_name lang code =
     (if lang = ''Python'' then ''main.py''
      else if lang = ''C++'' then ''main.cpp''
      else java_class_name code @ ''.java'')"

definition tools_present :: "env \<Rightarrow> string \<Rightarrow> bool" where
  "tools_present e lang =
     (if lang = ''C++'' then which e ''g++''
      else if lang = ''Java'' then which e ''javac'' \<and> which e ''java''
      else True)"

definition exe_name :: "env \<Rightarrow> string" where
  "exe_name e = (if os_name e = ''nt'' then ''main.exe'' else ''main'')"

definition compile_call :: "env \<Rightarrow> string \<Rightarrow> string \<Rightarrow> invocation" where
  "compile_call e lang code =
     (if lang = ''C++''
      then \<lparr>argv = [''g++'', ''-O2'', ''-std=c++17'', path_join e (tmpdir e) ''main.cpp'', ''-o'',
                    path_join e (tmpdir e) (exe_name e)],
            timeout = None, cwd = None\<rparr>
      else \<lparr>argv = [''javac'', path_join e (tmpdir e) (java_class_name code @ ''.java'')],
            timeout = None, cwd = Some (tmpdir e)\<rparr>)"

definition run_call :: "env \<Rightarrow> string \<Rightarrow> string \<Rightarrow> int \<Rightarrow> invocation" where
  "run_call e lang code timeout_s =
     (if lang = ''Python''
      then \<lparr>argv = [python_exe e, ''-u'', path_join e (tmpdir e) ''main.py''],
            timeout = Some timeout_s, cwd = None\<rparr>
      else if lang = ''C++''
      then \<lparr>argv = [path_join e (tmpdir e) (exe_name e)],
            timeout = Some timeout_s, cwd = None\<rparr>
      else \<lparr>argv = [''java'', ''-cp'', tmpdir e, java_class_name code],
            timeout = Some timeout_s, cwd = None\<rparr>)"

text \<open>The call came back, with status zero.\<close>

definition compiled_ok :: "env \<Rightarrow> invocation \<Rightarrow> bool" where
  "compiled_ok e call =
     (case run_outcome e call of
        Returns p \<Rightarrow> returncode p = 0
      | Raises x \<Rightarrow> False
      | Diverges \<Rightarrow> False)"

text \<open>
  \<open>adds P m\<close>: whatever the outside answers, \<open>m\<close> only adds events to the trace,
  and each of them satisfies \<open>P\<close>.
\<close>

definition adds :: "(event \<Rightarrow> bool) \<Rightarrow> 'a io \<Rightarrow> bool" where
  "adds P m \<longleftrightarrow> (\<forall>w. \<exists>evs. trace (snd (m w)) = trace w @ evs \<and> (\<forall>ev\<in>set evs. P ev))"


text \<open>
  What the pattern of \<^verbatim>\<open>run_java\<close> denotes, read off the pattern and not off the
  matcher: at offset \<open>i\<close> of \<open>s\<close> stand the word \<^verbatim>\<open>public\<close>, white space, the word
  \<^verbatim>\<open>class\<close>, white space, and the name \<open>n\<close>: a letter or an underscore and then word
  characters, as many as there are (the repetition is greedy and nothing follows it).
\<close>

definition pc_match :: "string \<Rightarrow> nat \<Rightarrow> string \<Rightarrow> bool" where
  "pc_match s i n \<longleftrightarrow>
     i \<le> length s \<and>
     (\<exists>ws1 ws2 c cs rest.
        drop i s = ''public'' @ ws1 @ ''class'' @ ws2 @ (c # cs) @ rest \<and> n = c # cs \<and>
        ws1 \<noteq> [] \<and> list_all is_space ws1 \<and>
        ws2 \<noteq> [] \<and> list_all is_space ws2 \<and>
        is_ident_start c \<and> list_all is_word cs \<and>
        (case rest of [] \<Rightarrow> True | r # _ \<Rightarrow> \<not> is_word r))"

subsection \<open>Sample environments\<close>

text \<open>
  A POSIX machine with the given tools on the search path and the given behaviour of the
  processes. The clock advances by one second per reading; a process started with six
  arguments (the compiler call of \<^verbatim>\<open>run_cpp\<close>) leaves its last argument behind as a file;
  the encoding is ASCII (the byte \<^verbatim>\<open>0xFF\<close> of the samples below is not valid in UTF-8
  either).
\<close>

definition ascii_decode :: "string \<Rightarrow> string option" where
  "ascii_decode bytes =
     (if list_all (\<lambda>c. (of_char c :: nat) < 128) bytes then Some bytes else None)"

definition sample_env :: "string list \<Rightarrow> (string list \<Rightarrow> behaviour) \<Rightarrow> env" where
  "sample_env tools procs =
     \<lparr>on_path = (\<lambda>c. c \<in> set tools), os_name = ''posix'',
      sys_executable = ''/usr/bin/python3'', tmpdir = ''/tmp/tmpk3v9'',
      proc = procs, proc_files = (\<lambda>a. drop 5 a),
      clock = (\<lambda>n. real n), write_fails = (\<lambda>_. False), decode = ascii_decode\<rparr>"

definition all_tools :: "string list" where
  "all_tools = [''g++'', ''javac'', ''java'']"

text \<open>A program that compiles in two seconds and then never ends.\<close>

definition looping_program :: "string list \<Rightarrow> behaviour" where
  "looping_program a =
     (if take 1 a = [''g++''] \<or> take 1 a = [''javac''] then Exits 2 (Some 2) 0 [] []
      else Hangs)"

text \<open>A program the compiler rejects after one second.\<close>

definition rejected_program :: "string list \<Rightarrow> behaviour" where
  "rejected_program a =
     (if take 1 a = [''g++''] \<or> take 1 a = [''javac'']
      then Exits 1 (Some 1) 1 [] ''error: expected a declaration''
      else Cannot_start)"

text \<open>A compiler that rejects the source with a message that is not ASCII.\<close>

definition garbling_compiler :: "string list \<Rightarrow> behaviour" where
  "garbling_compiler a = Exits 1 (Some 1) 1 [] [CHR 0xFF]"

text \<open>A compiler that rejects the source and leaves a descendant holding its pipes.\<close>

definition lingering_compiler :: "string list \<Rightarrow> behaviour" where
  "lingering_compiler a = Exits 1 None 1 [] ''error: expected a declaration''"

text \<open>
  A program that compiles in two seconds, writes the byte \<^verbatim>\<open>0xFF\<close> within half a second
  and exits with status zero.
\<close>

definition garbling_program :: "string list \<Rightarrow> behaviour" where
  "garbling_program a =
     (if take 1 a = [''g++''] \<or> take 1 a = [''javac''] then Exits 2 (Some 2) 0 [] []
      else Exits (1/2) (Some (1/2)) 0 [CHR 0xFF] [])"

text \<open>A program that compiles in two seconds, prints a line within half a second and exits with 3.\<close>

definition printing_program :: "string list \<Rightarrow> behaviour" where
  "printing_program a =
     (if take 1 a = [''g++''] \<or> take 1 a = [''javac''] then Exits 2 (Some 2) 0 [] []
      else Exits (1/2) (Some (1/2)) 3 ''hello'' ''bye'')"

text \<open>A compiler that never ends.\<close>

definition stuck_compiler :: "string list \<Rightarrow> behaviour" where
  "stuck_compiler a = Hangs"

definition start :: world where
  "start = \<lparr>files = [], trace = [], ticks = 0\<rparr>"

section \<open>Properties\<close>

subsection \<open>Steps of the runners\<close>

lemmas sample_defs = sample_env_def all_tools_def start_def which_def tools_present_def
  source_name_def compile_call_def run_call_def exe_name_def path_join_def sep_def python_exe_def

lemmas outcome_defs = run_outcome_def text_mode_def captured_def ascii_decode_def timeout_max_def

lemma spawned_append: "spawned (xs @ ys) = spawned xs @ spawned ys"
  by (induction xs rule: spawned.induct) simp_all

lemma bind_perf_counter:
  "io_bind (perf_counter e) f w =
     f (clock e (ticks w))
       (w\<lparr>trace := trace w @ [ReadClock (clock e (ticks w))], ticks := Suc (ticks w)\<rparr>)"
  by (simp add: io_bind_def perf_counter_def)

lemma bind_write_text:
  "io_bind (write_text e f s) g w =
     (if write_fails e f then (Raises OSError, w\<lparr>trace := trace w @ [WriteText f s]\<rparr>)
      else g () (w\<lparr>trace := trace w @ [WriteText f s], files := files w @ [f]\<rparr>))"
  by (simp add: io_bind_def write_text_def Let_def)

lemma bind_run_returns:
  "run_outcome e call = Returns p \<Longrightarrow>
   io_bind (subprocess_run e call) g w =
     g p (w\<lparr>trace := trace w @ [Spawn call],
            files := files w @
              (if proc e (argv call) = Cannot_start then [] else proc_files e (argv call))\<rparr>)"
  by (simp add: io_bind_def subprocess_run_def)

lemma bind_run_raises:
  "run_outcome e call = Raises x \<Longrightarrow>
   io_bind (subprocess_run e call) g w =
     (Raises x,
      w\<lparr>trace := trace w @ [Spawn call],
        files := files w @
          (if proc e (argv call) = Cannot_start then [] else proc_files e (argv call))\<rparr>)"
  by (simp add: io_bind_def subprocess_run_def)

lemma bind_run_diverges:
  "run_outcome e call = Diverges \<Longrightarrow>
   io_bind (subprocess_run e call) g w =
     (Diverges,
      w\<lparr>trace := trace w @ [Spawn call],
        files := files w @
          (if proc e (argv call) = Cannot_start then [] else proc_files e (argv call))\<rparr>)"
  by (simp add: io_bind_def subprocess_run_def)

text \<open>When a call of \<^verbatim>\<open>subprocess.run\<close> comes back, and with what.\<close>

lemma run_outcome_unbounded:
  assumes "proc e (argv call) = Exits x (Some c) rc out err" and "timeout call = None"
    and "captured e out = Some so" and "captured e err = Some se"
  shows "run_outcome e call = Returns \<lparr>returncode = rc, cp_stdout = so, cp_stderr = se\<rparr>"
  using assms by (simp add: run_outcome_def text_mode_def)

lemma run_outcome_bounded:
  assumes "proc e (argv call) = Exits x (Some c) rc out err" and "timeout call = Some t"
    and "max x c \<le> real_of_int t" and "t \<le> timeout_max"
    and "captured e out = Some so" and "captured e err = Some se"
  shows "run_outcome e call = Returns \<lparr>returncode = rc, cp_stdout = so, cp_stderr = se\<rparr>"
proof -
  from assms(3) have "\<not> real_of_int t < max x c" by (simp add: not_less)
  with assms show ?thesis by (simp add: run_outcome_def text_mode_def)
qed

lemma compiled_okD:
  assumes "compiled_ok e call"
  obtains p where "run_outcome e call = Returns p" and "returncode p = 0"
  using assms by (cases "run_outcome e call") (simp_all add: compiled_ok_def)

lemma with_tempdir_returns:
  "body (tmpdir e) (w\<lparr>files := files w @ [tmpdir e], trace := trace w @ [MkTemp (tmpdir e)]\<rparr>)
     = (Returns r, w2) \<Longrightarrow>
   with_tempdir e body w =
     (Returns r, w2\<lparr>files := filter (\<lambda>p. \<not> inside e (tmpdir e) p) (files w2),
                    trace := trace w2 @ [RmTree (tmpdir e)]\<rparr>)"
  by (simp add: with_tempdir_def Let_def)

lemma with_tempdir_raises:
  "body (tmpdir e) (w\<lparr>files := files w @ [tmpdir e], trace := trace w @ [MkTemp (tmpdir e)]\<rparr>)
     = (Raises x, w2) \<Longrightarrow>
   with_tempdir e body w =
     (Raises x, w2\<lparr>files := filter (\<lambda>p. \<not> inside e (tmpdir e) p) (files w2),
                   trace := trace w2 @ [RmTree (tmpdir e)]\<rparr>)"
  by (simp add: with_tempdir_def Let_def)

lemma with_tempdir_diverges:
  "body (tmpdir e) (w\<lparr>files := files w @ [tmpdir e], trace := trace w @ [MkTemp (tmpdir e)]\<rparr>)
     = (Diverges, w2) \<Longrightarrow>
   with_tempdir e body w = (Diverges, w2)"
  by (simp add: with_tempdir_def Let_def)

subsection \<open>Unsupported languages\<close>

text \<open>
  C10. For a language string other than \<^verbatim>\<open>Python\<close>, \<^verbatim>\<open>C++\<close> and \<^verbatim>\<open>Java\<close>,
  \<^verbatim>\<open>run_code\<close> returns (it does not raise) the result with \<^verbatim>\<open>ok\<close> false, empty
  \<^verbatim>\<open>stdout\<close>, \<^verbatim>\<open>stderr\<close> the text \<^verbatim>\<open>Unsupported: \<close> followed by the language string, and
  both times \<^verbatim>\<open>0.0\<close>; the world is the one it was called in: no file is created, no
  process is started.
\<close>

theorem run_code_unsupported:
  assumes "lang \<notin> {''Python'', ''C++'', ''Java''}"
  shows "run_code e lang code timeout_s w =
           (Returns \<lparr>ok = False, stdout = [], stderr = ''Unsupported: '' @ lang,
                     time_s = PyFloat 0, compile_time_s = PyFloat 0\<rparr>, w)"
  using assms by (simp add: run_code_def ret_def)

theorem run_code_unsupported_witness:
  "''Rust'' \<notin> {''Python'', ''C++'', ''Java''} \<and>
   run_code (sample_env all_tools looping_program) ''Rust'' ''fn main() {}'' 5 start =
     (Returns \<lparr>ok = False, stdout = [], stderr = ''Unsupported: Rust'',
               time_s = PyFloat 0, compile_time_s = PyFloat 0\<rparr>, start)"
proof -
  have h: "''Rust'' \<notin> {''Python'', ''C++'', ''Java''}" by simp
  show ?thesis
    using h run_code_unsupported [OF h, of "sample_env all_tools looping_program" "''fn main() {}''" 5 start]
    by simp
qed

subsection \<open>Missing tools\<close>

lemma run_cpp_missing:
  "\<not> which e ''g++'' \<Longrightarrow>
   run_cpp e code t w =
     (Returns \<lparr>ok = False, stdout = [], stderr = ''g++ not found on PATH.'',
               time_s = PyFloat 0, compile_time_s = PyFloat 0\<rparr>, w)"
  by (simp add: run_cpp_def ret_def)

lemma run_java_missing:
  "\<not> (which e ''javac'' \<and> which e ''java'') \<Longrightarrow>
   run_java e code t w =
     (Returns \<lparr>ok = False, stdout = [], stderr = ''javac/java not found on PATH.'',
               time_s = PyFloat 0, compile_time_s = PyFloat 0\<rparr>, w)"
  by (simp only: run_java_def ret_def simp_thms if_True)

text \<open>
  C4. When \<^verbatim>\<open>g++\<close> is not on the search path, a C++ request returns at once, and so
  does a Java request when \<^verbatim>\<open>javac\<close> or \<^verbatim>\<open>java\<close> is not: \<^verbatim>\<open>ok\<close> is false,
  \<^verbatim>\<open>stdout\<close> is empty, \<^verbatim>\<open>stderr\<close> names the missing tool, both times are \<^verbatim>\<open>0.0\<close>,
  and the world is the one the call started in: no directory or file was created and
  no process was started.
\<close>

theorem toolchain_missing:
  "(\<not> which e ''g++'' \<longrightarrow>
      run_code e ''C++'' code timeout_s w =
        (Returns \<lparr>ok = False, stdout = [], stderr = ''g++ not found on PATH.'',
                  time_s = PyFloat 0, compile_time_s = PyFloat 0\<rparr>, w)) \<and>
   (\<not> which e ''javac'' \<or> \<not> which e ''java'' \<longrightarrow>
      run_code e ''Java'' code timeout_s w =
        (Returns \<lparr>ok = False, stdout = [], stderr = ''javac/java not found on PATH.'',
                  time_s = PyFloat 0, compile_time_s = PyFloat 0\<rparr>, w))"
proof (intro conjI impI)
  assume "\<not> which e ''g++''"
  then show "run_code e ''C++'' code timeout_s w =
        (Returns \<lparr>ok = False, stdout = [], stderr = ''g++ not found on PATH.'',
                  time_s = PyFloat 0, compile_time_s = PyFloat 0\<rparr>, w)"
    by (simp add: run_code_def run_cpp_missing)
next
  assume "\<not> which e ''javac'' \<or> \<not> which e ''java''"
  then have "\<not> (which e ''javac'' \<and> which e ''java'')" by blast
  then show "run_code e ''Java'' code timeout_s w =
        (Returns \<lparr>ok = False, stdout = [], stderr = ''javac/java not found on PATH.'',
                  time_s = PyFloat 0, compile_time_s = PyFloat 0\<rparr>, w)"
    by (simp add: run_code_def run_java_missing)
qed

theorem toolchain_missing_witness:
  "\<not> which (sample_env [''javac''] looping_program) ''g++'' \<and>
   \<not> which (sample_env [''javac''] looping_program) ''java'' \<and>
   run_code (sample_env [''javac''] looping_program) ''C++'' ''int main() {}'' 5 start =
     (Returns \<lparr>ok = False, stdout = [], stderr = ''g++ not found on PATH.'',
               time_s = PyFloat 0, compile_time_s = PyFloat 0\<rparr>, start) \<and>
   run_code (sample_env [''javac''] looping_program) ''Java'' ''class A {}'' 5 start =
     (Returns \<lparr>ok = False, stdout = [], stderr = ''javac/java not found on PATH.'',
               time_s = PyFloat 0, compile_time_s = PyFloat 0\<rparr>, start)"
proof -
  let ?e = "sample_env [''javac''] looping_program"
  have h1: "\<not> which ?e ''g++''" by (simp add: which_def sample_env_def)
  have h2: "\<not> which ?e ''java''" by (simp add: which_def sample_env_def)
  from toolchain_missing [of ?e "''int main() {}''" 5 start] h1
  have c1: "run_code ?e ''C++'' ''int main() {}'' 5 start =
     (Returns \<lparr>ok = False, stdout = [], stderr = ''g++ not found on PATH.'',
               time_s = PyFloat 0, compile_time_s = PyFloat 0\<rparr>, start)" by blast
  from toolchain_missing [of ?e "''class A {}''" 5 start] h2
  have c2: "run_code ?e ''Java'' ''class A {}'' 5 start =
     (Returns \<lparr>ok = False, stdout = [], stderr = ''javac/java not found on PATH.'',
               time_s = PyFloat 0, compile_time_s = PyFloat 0\<rparr>, start)" by blast
  from h1 h2 c1 c2 show ?thesis by blast
qed

subsection \<open>A compiler that rejects the source\<close>

lemma run_cpp_compile_failure:
  assumes "which e ''g++''"
    and "\<not> write_fails e (path_join e (tmpdir e) ''main.cpp'')"
    and "run_outcome e (compile_call e ''C++'' code) = Returns p"
    and "returncode p \<noteq> 0"
  shows "\<exists>w'. run_cpp e code timeout_s w =
           (Returns \<lparr>ok = False, stdout = cp_stdout p, stderr = cp_stderr p, time_s = PyFloat 0,
                    compile_time_s = PyFloat (clock e (Suc (ticks w)) - clock e (ticks w))\<rparr>, w')
         \<and> trace w' =
             trace w @
               [MkTemp (tmpdir e), WriteText (path_join e (tmpdir e) ''main.cpp'') code,
                ReadClock (clock e (ticks w)), Spawn (compile_call e ''C++'' code),
                ReadClock (clock e (Suc (ticks w))), RmTree (tmpdir e)]"
proof -
  have p: "run_outcome e
             \<lparr>argv = [''g++'', ''-O2'', ''-std=c++17'', path_join e (tmpdir e) ''main.cpp'', ''-o'',
                      path_join e (tmpdir e) (if os_name e = ''nt'' then ''main.exe'' else ''main'')],
              timeout = None, cwd = None\<rparr> = Returns p"
    using assms(3) by (simp add: compile_call_def exe_name_def)
  show ?thesis
    unfolding run_cpp_def
    using assms(1,2,4)
    apply (simp only: if_not_P not_not if_True Let_def)
    apply (subst with_tempdir_returns)
     apply (simp only: bind_write_text bind_perf_counter if_False bind_run_returns [OF p])
     apply (simp add: ret_def)
    apply (simp add: compile_call_def exe_name_def)
    done
qed

lemma run_java_compile_failure:
  assumes "which e ''javac''" and "which e ''java''"
    and "\<not> write_fails e (path_join e (tmpdir e) (java_class_name code @ ''.java''))"
    and "run_outcome e (compile_call e ''Java'' code) = Returns p"
    and "returncode p \<noteq> 0"
  shows "\<exists>w'. run_java e code timeout_s w =
           (Returns \<lparr>ok = False, stdout = cp_stdout p, stderr = cp_stderr p, time_s = PyFloat 0,
                    compile_time_s = PyFloat (clock e (Suc (ticks w)) - clock e (ticks w))\<rparr>, w')
         \<and> trace w' =
             trace w @
               [MkTemp (tmpdir e),
                WriteText (path_join e (tmpdir e) (java_class_name code @ ''.java'')) code,
                ReadClock (clock e (ticks w)), Spawn (compile_call e ''Java'' code),
                ReadClock (clock e (Suc (ticks w))), RmTree (tmpdir e)]"
proof -
  have p: "run_outcome e
             \<lparr>argv = [''javac'', path_join e (tmpdir e) (java_class_name code @ ''.java'')],
              timeout = None, cwd = Some (tmpdir e)\<rparr> = Returns p"
    using assms(4) by (simp add: compile_call_def)
  show ?thesis
    unfolding run_java_def
    using assms(1,2,3,5)
    apply (simp only: simp_thms if_False Let_def)
    apply (subst with_tempdir_returns)
     apply (simp only: bind_write_text bind_perf_counter if_False bind_run_returns [OF p])
     apply (simp add: ret_def)
    apply (simp add: compile_call_def)
    done
qed

text \<open>
  C3, as amended. A C++ or Java request whose compiler exits with a status other than
  zero, its pipes at end of file and both captured streams valid in the platform's
  encoding, returns \<^verbatim>\<open>ok\<close> false, the two captured streams of the compiler as text,
  \<^verbatim>\<open>time_s\<close> \<^verbatim>\<open>0.0\<close> and as \<^verbatim>\<open>compile_time_s\<close> the reading of the clock taken right
  after the compiler call minus the one taken right before it. The call does, in this
  order: make the directory, write the source, read the clock, start the compiler, read
  the clock, remove the directory; the compiler is the only process it starts.
\<close>

theorem compile_failure:
  assumes "lang = ''C++'' \<or> lang = ''Java''"
    and "tools_present e lang"
    and "\<not> write_fails e (path_join e (tmpdir e) (source_name lang code))"
    and "proc e (argv (compile_call e lang code)) = Exits x (Some c) rc out_bytes err_bytes"
    and "rc \<noteq> 0"
    and "captured e out_bytes = Some out"
    and "captured e err_bytes = Some err"
  shows "fst (run_code e lang code timeout_s w) =
           Returns \<lparr>ok = False, stdout = out, stderr = err, time_s = PyFloat 0,
                    compile_time_s = PyFloat (clock e (Suc (ticks w)) - clock e (ticks w))\<rparr>
         \<and> trace (snd (run_code e lang code timeout_s w)) =
             trace w @
               [MkTemp (tmpdir e),
                WriteText (path_join e (tmpdir e) (source_name lang code)) code,
                ReadClock (clock e (ticks w)), Spawn (compile_call e lang code),
                ReadClock (clock e (Suc (ticks w))), RmTree (tmpdir e)]"
proof -
  have "timeout (compile_call e lang code) = None" by (simp add: compile_call_def)
  from run_outcome_unbounded [OF assms(4) this assms(6,7)]
  have p: "run_outcome e (compile_call e lang code) =
             Returns \<lparr>returncode = rc, cp_stdout = out, cp_stderr = err\<rparr>" .
  from assms(1) show ?thesis
  proof
    assume l: "lang = ''C++''"
    from assms l have "which e ''g++''" "\<not> write_fails e (path_join e (tmpdir e) ''main.cpp'')"
      by (simp_all add: tools_present_def source_name_def)
    from run_cpp_compile_failure [OF this p [unfolded l], of timeout_s w] assms(5) l
    show ?thesis by (auto simp: run_code_def source_name_def)
  next
    assume l: "lang = ''Java''"
    from assms l have "which e ''javac''" "which e ''java''"
      "\<not> write_fails e (path_join e (tmpdir e) (java_class_name code @ ''.java''))"
      by (simp_all add: tools_present_def source_name_def)
    from run_java_compile_failure [OF this p [unfolded l], of timeout_s w] assms(5) l
    show ?thesis by (auto simp: run_code_def source_name_def)
  qed
qed

theorem compile_failure_witness:
  "fst (run_code (sample_env all_tools rejected_program) ''C++'' ''int main( {'' 5 start) =
     Returns \<lparr>ok = False, stdout = [], stderr = ''error: expected a declaration'',
              time_s = PyFloat 0, compile_time_s = PyFloat 1\<rparr> \<and>
   trace (snd (run_code (sample_env all_tools rejected_program) ''C++'' ''int main( {'' 5 start)) =
     [MkTemp ''/tmp/tmpk3v9'', WriteText ''/tmp/tmpk3v9/main.cpp'' ''int main( {'',
      ReadClock 0,
      Spawn \<lparr>argv = [''g++'', ''-O2'', ''-std=c++17'', ''/tmp/tmpk3v9/main.cpp'', ''-o'',
                     ''/tmp/tmpk3v9/main''], timeout = None, cwd = None\<rparr>,
      ReadClock 1, RmTree ''/tmp/tmpk3v9'']"
proof -
  let ?e = "sample_env all_tools rejected_program"
  have h1: "''C++'' = ''C++'' \<or> ''C++'' = ''Java''" by simp
  have h2: "tools_present ?e ''C++''" by (simp add: sample_defs)
  have h3: "\<not> write_fails ?e (path_join ?e (tmpdir ?e) (source_name ''C++'' ''int main( {''))"
    by (simp add: sample_defs)
  have h4: "proc ?e (argv (compile_call ?e ''C++'' ''int main( {'')) =
              Exits 1 (Some 1) 1 [] ''error: expected a declaration''"
    by (simp add: sample_defs rejected_program_def)
  have h5: "(1::int) \<noteq> 0" by simp
  have h6: "captured ?e [] = Some []"
    by (simp add: captured_def ascii_decode_def sample_env_def)
  have h7: "captured ?e ''error: expected a declaration'' = Some ''error: expected a declaration''"
    by (simp add: captured_def ascii_decode_def sample_env_def)
  from compile_failure [OF h1 h2 h3 h4 h5 h6 h7, of 5 start]
  show ?thesis by (simp add: sample_defs)
qed

text \<open>
  C3, as stated, fails: a compiler that exits with status 1 after writing a byte that is
  not valid in the platform's encoding makes the call raise \<^verbatim>\<open>UnicodeDecodeError\<close>, and
  one that exits with status 1 while a descendant keeps its pipes open keeps the call
  from ever returning (the compile call has no time-out).
\<close>

theorem compile_failure_counterexample:
  "proc (sample_env all_tools garbling_compiler)
     (argv (compile_call (sample_env all_tools garbling_compiler) ''C++'' ''int main( {'')) =
     Exits 1 (Some 1) 1 [] [CHR 0xFF] \<and>
   fst (run_code (sample_env all_tools garbling_compiler) ''C++'' ''int main( {'' 5 start) =
     Raises UnicodeDecodeError \<and>
   proc (sample_env all_tools lingering_compiler)
     (argv (compile_call (sample_env all_tools lingering_compiler) ''C++'' ''int main( {'')) =
     Exits 1 None 1 [] ''error: expected a declaration'' \<and>
   fst (run_code (sample_env all_tools lingering_compiler) ''C++'' ''int main( {'' 5 start) =
     Diverges"
  by (simp add: run_code_def run_cpp_def with_tempdir_def io_bind_def write_text_def
        perf_counter_def subprocess_run_def Let_def sample_defs outcome_defs
        garbling_compiler_def lingering_compiler_def)

subsection \<open>A run phase that raises\<close>

text \<open>
  \<^verbatim>\<open>run_cpp\<close> and \<^verbatim>\<open>run_java\<close> have no handler around the run phase: whatever the
  call of \<^verbatim>\<open>subprocess.run\<close> raises there leaves the runner. \<^verbatim>\<open>run_python\<close> turns
  \<^verbatim>\<open>TimeoutExpired\<close> into a result and lets everything else through.
\<close>

lemma run_cpp_run_raises:
  assumes "which e ''g++''"
    and "\<not> write_fails e (path_join e (tmpdir e) ''main.cpp'')"
    and "run_outcome e (compile_call e ''C++'' code) = Returns p"
    and "returncode p = 0"
    and "run_outcome e (run_call e ''C++'' code t) = Raises x"
  shows "fst (run_cpp e code t w) = Raises x"
proof -
  have p: "run_outcome e
             \<lparr>argv = [''g++'', ''-O2'', ''-std=c++17'', path_join e (tmpdir e) ''main.cpp'', ''-o'',
                      path_join e (tmpdir e) (if os_name e = ''nt'' then ''main.exe'' else ''main'')],
              timeout = None, cwd = None\<rparr> = Returns p"
    using assms(3) by (simp add: compile_call_def exe_name_def)
  have q: "run_outcome e
             \<lparr>argv = [path_join e (tmpdir e) (if os_name e = ''nt'' then ''main.exe'' else ''main'')],
              timeout = Some t, cwd = None\<rparr> = Raises x"
    using assms(5) by (simp add: run_call_def exe_name_def)
  show ?thesis
    unfolding run_cpp_def
    using assms(1,2,4)
    apply (simp only: if_not_P not_not if_True Let_def)
    apply (subst with_tempdir_raises)
     apply (simp only: bind_write_text bind_perf_counter if_False bind_run_returns [OF p])
     apply (simp add: bind_perf_counter bind_run_raises [OF q])
    apply simp
    done
qed

lemma run_java_run_raises:
  assumes "which e ''javac''" and "which e ''java''"
    and "\<not> write_fails e (path_join e (tmpdir e) (java_class_name code @ ''.java''))"
    and "run_outcome e (compile_call e ''Java'' code) = Returns p"
    and "returncode p = 0"
    and "run_outcome e (run_call e ''Java'' code t) = Raises x"
  shows "fst (run_java e code t w) = Raises x"
proof -
  have p: "run_outcome e
             \<lparr>argv = [''javac'', path_join e (tmpdir e) (java_class_name code @ ''.java'')],
              timeout = None, cwd = Some (tmpdir e)\<rparr> = Returns p"
    using assms(4) by (simp add: compile_call_def)
  have q: "run_outcome e
             \<lparr>argv = [''java'', ''-cp'', tmpdir e, java_class_name code],
              timeout = Some t, cwd = None\<rparr> = Raises x"
    using assms(6) by (simp add: run_call_def)
  show ?thesis
    unfolding run_java_def
    using assms(1,2,3,5)
    apply (simp only: simp_thms if_False Let_def)
    apply (subst with_tempdir_raises)
     apply (simp only: bind_write_text bind_perf_counter if_False bind_run_returns [OF p])
     apply (simp add: bind_perf_counter bind_run_raises [OF q])
    apply simp
    done
qed

lemma run_python_timeout:
  assumes "\<not> write_fails e (path_join e (tmpdir e) ''main.py'')"
    and "run_outcome e (run_call e ''Python'' code t) = Raises TimeoutExpired"
  shows "fst (run_python e code t w) =
           Returns \<lparr>ok = False, stdout = [], stderr = ''Timeout'',
                    time_s = PyInt t, compile_time_s = PyFloat 0\<rparr>"
proof -
  have q: "run_outcome e
             \<lparr>argv = [python_exe e, ''-u'', path_join e (tmpdir e) ''main.py''],
              timeout = Some t, cwd = None\<rparr> = Raises TimeoutExpired"
    using assms(2) by (simp add: run_call_def)
  show ?thesis
    unfolding run_python_def
    using assms(1)
    apply (simp only: Let_def)
    apply (subst with_tempdir_returns)
     apply (simp only: bind_write_text bind_perf_counter if_False)
     apply (simp add: try_except_def bind_run_raises [OF q] ret_def)
    apply simp
    done
qed

lemma run_python_run_raises:
  assumes "\<not> write_fails e (path_join e (tmpdir e) ''main.py'')"
    and "run_outcome e (run_call e ''Python'' code t) = Raises x"
    and "x \<noteq> TimeoutExpired"
  shows "fst (run_python e code t w) = Raises x"
proof -
  have q: "run_outcome e
             \<lparr>argv = [python_exe e, ''-u'', path_join e (tmpdir e) ''main.py''],
              timeout = Some t, cwd = None\<rparr> = Raises x"
    using assms(2) by (simp add: run_call_def)
  show ?thesis
    unfolding run_python_def
    using assms(1,3)
    apply (simp only: Let_def)
    apply (subst with_tempdir_raises)
     apply (simp only: bind_write_text bind_perf_counter if_False)
     apply (simp add: try_except_def bind_run_raises [OF q])
    apply simp
    done
qed

text \<open>
  C1. The claim: in all three languages a run that outlasts \<^verbatim>\<open>timeout_s\<close> gives the
  result with \<^verbatim>\<open>ok\<close> false, empty \<^verbatim>\<open>stdout\<close>, \<^verbatim>\<open>stderr\<close> \<^verbatim>\<open>Timeout\<close> and
  \<^verbatim>\<open>time_s\<close> the time-out. \<^verbatim>\<open>run_python\<close> does that (\<open>run_python_timeout\<close>);
  \<^verbatim>\<open>run_cpp\<close> has no \<^verbatim>\<open>except\<close> clause, so for a C++ program that compiles and then
  never ends the call returns no result: \<^verbatim>\<open>TimeoutExpired\<close> leaves \<^verbatim>\<open>run_code\<close>.
\<close>

theorem cpp_timeout_escapes:
  "fst (run_code (sample_env all_tools looping_program) ''C++'' ''int main() { for (;;); }'' 5 start)
     = Raises TimeoutExpired"
proof -
  let ?e = "sample_env all_tools looping_program"
  have "fst (run_cpp ?e ''int main() { for (;;); }'' 5 start) = Raises TimeoutExpired"
    by (rule run_cpp_run_raises
          [where p = "\<lparr>returncode = 0, cp_stdout = [], cp_stderr = []\<rparr>"])
       (simp_all add: sample_defs looping_program_def outcome_defs)
  then show ?thesis by (simp add: run_code_def)
qed

text \<open>
  C2. The claim: the runner never raises for a missing tool, a compile error, a
  non-zero exit or a run that outlasts the time-out. For a Java program that compiles
  and then never ends, \<^verbatim>\<open>run_java\<close> lets \<^verbatim>\<open>TimeoutExpired\<close> through to the caller.
\<close>

theorem java_timeout_escapes:
  "fst (run_code (sample_env all_tools looping_program) ''Java''
          ''public class Spin { public static void main(String[] a) { for (;;); } }'' 5 start)
     = Raises TimeoutExpired"
proof -
  let ?e = "sample_env all_tools looping_program"
  have "fst (run_java ?e ''public class Spin { public static void main(String[] a) { for (;;); } }'' 5 start)
          = Raises TimeoutExpired"
    by (rule run_java_run_raises
          [where p = "\<lparr>returncode = 0, cp_stdout = [], cp_stderr = []\<rparr>"])
       (simp_all add: sample_defs looping_program_def outcome_defs)
  then show ?thesis by (simp add: run_code_def)
qed

subsection \<open>A run that ends in time\<close>

lemma run_python_completes:
  assumes "\<not> write_fails e (path_join e (tmpdir e) ''main.py'')"
    and "run_outcome e (run_call e ''Python'' code t) = Returns p"
  shows "fst (run_python e code t w) =
           Returns \<lparr>ok = (returncode p = 0), stdout = cp_stdout p, stderr = cp_stderr p,
                    time_s = PyFloat (clock e (Suc (ticks w)) - clock e (ticks w)),
                    compile_time_s = PyFloat 0\<rparr>"
proof -
  have q: "run_outcome e
             \<lparr>argv = [python_exe e, ''-u'', path_join e (tmpdir e) ''main.py''],
              timeout = Some t, cwd = None\<rparr> = Returns p"
    using assms(2) by (simp add: run_call_def)
  show ?thesis
    unfolding run_python_def
    using assms(1)
    apply (simp only: Let_def)
    apply (subst with_tempdir_returns)
     apply (simp only: bind_write_text bind_perf_counter if_False)
     apply (simp add: try_except_def bind_run_returns [OF q] bind_perf_counter ret_def)
    apply simp
    done
qed

lemma run_cpp_completes:
  assumes "which e ''g++''"
    and "\<not> write_fails e (path_join e (tmpdir e) ''main.cpp'')"
    and "run_outcome e (compile_call e ''C++'' code) = Returns pc"
    and "returncode pc = 0"
    and "run_outcome e (run_call e ''C++'' code t) = Returns p"
  shows "fst (run_cpp e code t w) =
           Returns \<lparr>ok = (returncode p = 0), stdout = cp_stdout p, stderr = cp_stderr p,
                    time_s = PyFloat (clock e (ticks w + 3) - clock e (ticks w + 2)),
                    compile_time_s = PyFloat (clock e (ticks w + 1) - clock e (ticks w))\<rparr>"
proof -
  have p: "run_outcome e
             \<lparr>argv = [''g++'', ''-O2'', ''-std=c++17'', path_join e (tmpdir e) ''main.cpp'', ''-o'',
                      path_join e (tmpdir e) (if os_name e = ''nt'' then ''main.exe'' else ''main'')],
              timeout = None, cwd = None\<rparr> = Returns pc"
    using assms(3) by (simp add: compile_call_def exe_name_def)
  have q: "run_outcome e
             \<lparr>argv = [path_join e (tmpdir e) (if os_name e = ''nt'' then ''main.exe'' else ''main'')],
              timeout = Some t, cwd = None\<rparr> = Returns p"
    using assms(5) by (simp add: run_call_def exe_name_def)
  show ?thesis
    unfolding run_cpp_def
    using assms(1,2,4)
    apply (simp only: if_not_P not_not if_True Let_def)
    apply (subst with_tempdir_returns)
     apply (simp only: bind_write_text bind_perf_counter if_False bind_run_returns [OF p])
     apply (simp add: bind_perf_counter bind_run_returns [OF q] ret_def)
    apply (simp add: numeral_3_eq_3 numeral_2_eq_2)
    done
qed

lemma run_java_completes:
  assumes "which e ''javac''" and "which e ''java''"
    and "\<not> write_fails e (path_join e (tmpdir e) (java_class_name code @ ''.java''))"
    and "run_outcome e (compile_call e ''Java'' code) = Returns pc"
    and "returncode pc = 0"
    and "run_outcome e (run_call e ''Java'' code t) = Returns p"
  shows "fst (run_java e code t w) =
           Returns \<lparr>ok = (returncode p = 0), stdout = cp_stdout p, stderr = cp_stderr p,
                    time_s = PyFloat (clock e (ticks w + 3) - clock e (ticks w + 2)),
                    compile_time_s = PyFloat (clock e (ticks w + 1) - clock e (ticks w))\<rparr>"
proof -
  have p: "run_outcome e
             \<lparr>argv = [''javac'', path_join e (tmpdir e) (java_class_name code @ ''.java'')],
              timeout = None, cwd = Some (tmpdir e)\<rparr> = Returns pc"
    using assms(4) by (simp add: compile_call_def)
  have q: "run_outcome e
             \<lparr>argv = [''java'', ''-cp'', tmpdir e, java_class_name code],
              timeout = Some t, cwd = None\<rparr> = Returns p"
    using assms(6) by (simp add: run_call_def)
  show ?thesis
    unfolding run_java_def
    using assms(1,2,3,5)
    apply (simp only: simp_thms if_False Let_def)
    apply (subst with_tempdir_returns)
     apply (simp only: bind_write_text bind_perf_counter if_False bind_run_returns [OF p])
     apply (simp add: bind_perf_counter bind_run_returns [OF q] ret_def)
    apply (simp add: numeral_3_eq_3 numeral_2_eq_2)
    done
qed

text \<open>
  C7, as amended. When a request reaches the run phase (the tools are there, the source
  was written, and for C++ and Java the compile call came back with status zero), the
  time-out is at most 2147483 seconds, the process of the run phase has exited and its
  pipes are at end of file within the time-out, and both captured streams are valid in
  the platform's encoding, then the call returns a result whose \<^verbatim>\<open>ok\<close> is true exactly
  when that process exited with status zero, and whose \<^verbatim>\<open>stdout\<close> and \<^verbatim>\<open>stderr\<close> are
  the captured streams of that process as text.
\<close>

theorem run_completes:
  assumes "lang = ''Python'' \<or> lang = ''C++'' \<or> lang = ''Java''"
    and "tools_present e lang"
    and "\<not> write_fails e (path_join e (tmpdir e) (source_name lang code))"
    and "lang \<noteq> ''Python'' \<longrightarrow> compiled_ok e (compile_call e lang code)"
    and "proc e (argv (run_call e lang code timeout_s)) = Exits x (Some c) rc out_bytes err_bytes"
    and "max x c \<le> real_of_int timeout_s"
    and "timeout_s \<le> timeout_max"
    and "captured e out_bytes = Some out"
    and "captured e err_bytes = Some err"
  shows "\<exists>r. fst (run_code e lang code timeout_s w) = Returns r \<and>
           ok r = (rc = 0) \<and> stdout r = out \<and> stderr r = err"
proof -
  have "timeout (run_call e lang code timeout_s) = Some timeout_s" by (simp add: run_call_def)
  from run_outcome_bounded [OF assms(5) this assms(6-9)]
  have q: "run_outcome e (run_call e lang code timeout_s) =
             Returns \<lparr>returncode = rc, cp_stdout = out, cp_stderr = err\<rparr>" .
  consider (py) "lang = ''Python''" | (cpp) "lang = ''C++''" | (java) "lang = ''Java''"
    using assms(1) by blast
  then show ?thesis
  proof cases
    case py
    with assms have "\<not> write_fails e (path_join e (tmpdir e) ''main.py'')"
      by (simp add: source_name_def)
    from run_python_completes [OF this q [unfolded py], of w] py
    show ?thesis by (simp add: run_code_def)
  next
    case cpp
    with assms(4) have "compiled_ok e (compile_call e ''C++'' code)" by simp
    then obtain pc where pc: "run_outcome e (compile_call e ''C++'' code) = Returns pc"
      "returncode pc = 0" by (rule compiled_okD)
    from cpp assms have "which e ''g++''"
      "\<not> write_fails e (path_join e (tmpdir e) ''main.cpp'')"
      by (simp_all add: source_name_def tools_present_def)
    from run_cpp_completes [OF this pc q [unfolded cpp], of w] cpp
    show ?thesis by (simp add: run_code_def)
  next
    case java
    with assms(4) have "compiled_ok e (compile_call e ''Java'' code)" by simp
    then obtain pc where pc: "run_outcome e (compile_call e ''Java'' code) = Returns pc"
      "returncode pc = 0" by (rule compiled_okD)
    from java assms have "which e ''javac''" "which e ''java''"
      "\<not> write_fails e (path_join e (tmpdir e) (java_class_name code @ ''.java''))"
      by (simp_all add: source_name_def tools_present_def)
    from run_java_completes [OF this pc q [unfolded java], of w] java
    show ?thesis by (simp add: run_code_def)
  qed
qed

theorem run_completes_witness:
  "\<exists>r. fst (run_code (sample_env all_tools printing_program) ''C++''
             ''int main() { return 3; }'' 5 start) = Returns r \<and>
        \<not> ok r \<and> stdout r = ''hello'' \<and> stderr r = ''bye''"
proof -
  let ?e = "sample_env all_tools printing_program"
  let ?code = "''int main() { return 3; }''"
  have h1: "''C++'' = ''Python'' \<or> ''C++'' = ''C++'' \<or> ''C++'' = ''Java''" by simp
  have h2: "tools_present ?e ''C++''" by (simp add: sample_defs)
  have h3: "\<not> write_fails ?e (path_join ?e (tmpdir ?e) (source_name ''C++'' ?code))"
    by (simp add: sample_defs)
  have h4: "''C++'' \<noteq> ''Python'' \<longrightarrow> compiled_ok ?e (compile_call ?e ''C++'' ?code)"
    by (simp add: sample_defs printing_program_def compiled_ok_def outcome_defs)
  have h5: "proc ?e (argv (run_call ?e ''C++'' ?code 5)) =
              Exits (1/2) (Some (1/2)) 3 ''hello'' ''bye''"
    by (simp add: sample_defs printing_program_def)
  have h6: "max (1/2::real) (1/2) \<le> real_of_int 5" by simp
  have h7: "(5::int) \<le> timeout_max" by (simp add: timeout_max_def)
  have h8: "captured ?e ''hello'' = Some ''hello''"
    by (simp add: captured_def ascii_decode_def sample_env_def)
  have h9: "captured ?e ''bye'' = Some ''bye''"
    by (simp add: captured_def ascii_decode_def sample_env_def)
  from run_completes [OF h1 h2 h3 h4 h5 h6 h7 h8 h9, of start]
  show ?thesis by simp
qed

text \<open>
  C7, as stated, fails. A Python program that writes the byte \<^verbatim>\<open>0xFF\<close> and exits with
  status zero after half a second, under a time-out of five seconds, gives no result:
  the call raises \<^verbatim>\<open>UnicodeDecodeError\<close>. And under a time-out of 2147484 seconds a
  program that ends after half a second gives no result either: the call raises
  \<^verbatim>\<open>OverflowError\<close>.
\<close>

theorem run_completes_counterexample:
  "proc (sample_env all_tools garbling_program)
     (argv (run_call (sample_env all_tools garbling_program) ''Python''
              ''import sys; sys.stdout.buffer.write(bytes([255]))'' 5)) =
     Exits (1/2) (Some (1/2)) 0 [CHR 0xFF] [] \<and>
   fst (run_code (sample_env all_tools garbling_program) ''Python''
          ''import sys; sys.stdout.buffer.write(bytes([255]))'' 5 start) =
     Raises UnicodeDecodeError \<and>
   proc (sample_env all_tools printing_program)
     (argv (run_call (sample_env all_tools printing_program) ''Python''
              ''import sys; sys.exit(3)'' 2147484)) =
     Exits (1/2) (Some (1/2)) 3 ''hello'' ''bye'' \<and>
   fst (run_code (sample_env all_tools printing_program) ''Python''
          ''import sys; sys.exit(3)'' 2147484 start) =
     Raises OverflowError"
proof -
  let ?g = "sample_env all_tools garbling_program"
  let ?p = "sample_env all_tools printing_program"
  have 1: "proc ?g (argv (run_call ?g ''Python''
              ''import sys; sys.stdout.buffer.write(bytes([255]))'' 5)) =
             Exits (1/2) (Some (1/2)) 0 [CHR 0xFF] []"
    by (simp add: sample_defs garbling_program_def)
  have 2: "fst (run_python ?g ''import sys; sys.stdout.buffer.write(bytes([255]))'' 5 start) =
             Raises UnicodeDecodeError"
    by (rule run_python_run_raises)
       (simp_all add: sample_defs garbling_program_def outcome_defs)
  have 3: "proc ?p (argv (run_call ?p ''Python'' ''import sys; sys.exit(3)'' 2147484)) =
             Exits (1/2) (Some (1/2)) 3 ''hello'' ''bye''"
    by (simp add: sample_defs printing_program_def)
  have 4: "fst (run_python ?p ''import sys; sys.exit(3)'' 2147484 start) = Raises OverflowError"
    by (rule run_python_run_raises)
       (simp_all add: sample_defs printing_program_def outcome_defs)
  from 1 2 3 4 show ?thesis by (simp add: run_code_def)
qed

subsection \<open>The processes a call starts\<close>

lemma subprocess_run_trace:
  "trace (snd (subprocess_run e c w)) = trace w @ [Spawn c]"
  by (simp add: subprocess_run_def)

lemma bind_run_last:
  assumes "\<And>p w. spawned (trace (snd (f p w))) = spawned (trace w)"
  shows "spawned (trace (snd (io_bind (subprocess_run e c) f w))) = spawned (trace w) @ [c]"
  by (cases "run_outcome e c")
     (simp_all add: bind_run_returns bind_run_raises bind_run_diverges assms spawned_append)

lemma try_except_ret_trace: "trace (snd (try_except m x (ret r) w)) = trace (snd (m w))"
  by (cases "m w") (simp add: try_except_def ret_def split: outcome.split)

lemma with_tempdir_spawned:
  "spawned (trace (snd (with_tempdir e body w))) =
   spawned (trace (snd (body (tmpdir e)
     (w\<lparr>files := files w @ [tmpdir e], trace := trace w @ [MkTemp (tmpdir e)]\<rparr>))))"
  by (cases "body (tmpdir e) (w\<lparr>files := files w @ [tmpdir e], trace := trace w @ [MkTemp (tmpdir e)]\<rparr>)")
     (simp add: with_tempdir_def Let_def spawned_append split: outcome.split)

lemma run_python_calls:
  "spawned (trace (snd (run_python e code t w))) =
   spawned (trace w) @
     (if write_fails e (path_join e (tmpdir e) ''main.py'') then []
      else [\<lparr>argv = [python_exe e, ''-u'', path_join e (tmpdir e) ''main.py''],
             timeout = Some t, cwd = None\<rparr>])"
  unfolding run_python_def Let_def
  by (simp add: with_tempdir_spawned bind_write_text bind_perf_counter try_except_ret_trace
        bind_run_last ret_def spawned_append)

lemma run_cpp_calls:
  "spawned (trace (snd (run_cpp e code t w))) =
   spawned (trace w) @
     (if which e ''g++'' \<and> \<not> write_fails e (path_join e (tmpdir e) ''main.cpp'')
      then \<lparr>argv = [''g++'', ''-O2'', ''-std=c++17'', path_join e (tmpdir e) ''main.cpp'', ''-o'',
                    path_join e (tmpdir e) (if os_name e = ''nt'' then ''main.exe'' else ''main'')],
            timeout = None, cwd = None\<rparr> #
           (if compiled_ok e
                 \<lparr>argv = [''g++'', ''-O2'', ''-std=c++17'', path_join e (tmpdir e) ''main.cpp'',
                          ''-o'',
                          path_join e (tmpdir e)
                            (if os_name e = ''nt'' then ''main.exe'' else ''main'')],
                  timeout = None, cwd = None\<rparr>
            then [\<lparr>argv = [path_join e (tmpdir e) (if os_name e = ''nt'' then ''main.exe'' else ''main'')],
                   timeout = Some t, cwd = None\<rparr>]
            else [])
      else [])"
  (is "_ = _ @ (if _ then _ # (if compiled_ok e ?c then _ else _) else _)")
proof (cases "which e ''g++''")
  case False
  then show ?thesis by (simp add: run_cpp_missing)
next
  case True
  show ?thesis
  proof (cases "run_outcome e ?c")
    case (Returns p)
    show ?thesis
      unfolding run_cpp_def Let_def using True
      by (simp add: with_tempdir_spawned bind_write_text bind_perf_counter
            bind_run_returns [OF Returns] Returns compiled_ok_def ret_def
            bind_run_last spawned_append)
  next
    case (Raises x)
    show ?thesis
      unfolding run_cpp_def Let_def using True
      by (simp add: with_tempdir_spawned bind_write_text bind_perf_counter
            bind_run_raises [OF Raises] Raises compiled_ok_def spawned_append)
  next
    case Diverges
    show ?thesis
      unfolding run_cpp_def Let_def using True
      by (simp add: with_tempdir_spawned bind_write_text bind_perf_counter
            bind_run_diverges [OF Diverges] Diverges compiled_ok_def spawned_append)
  qed
qed

lemma run_java_calls:
  "spawned (trace (snd (run_java e code t w))) =
   spawned (trace w) @
     (if which e ''javac'' \<and> which e ''java'' \<and>
         \<not> write_fails e (path_join e (tmpdir e) (java_class_name code @ ''.java''))
      then \<lparr>argv = [''javac'', path_join e (tmpdir e) (java_class_name code @ ''.java'')],
            timeout = None, cwd = Some (tmpdir e)\<rparr> #
           (if compiled_ok e
                 \<lparr>argv = [''javac'', path_join e (tmpdir e) (java_class_name code @ ''.java'')],
                  timeout = None, cwd = Some (tmpdir e)\<rparr>
            then [\<lparr>argv = [''java'', ''-cp'', tmpdir e, java_class_name code],
                   timeout = Some t, cwd = None\<rparr>]
            else [])
      else [])"
  (is "_ = _ @ (if _ then _ # (if compiled_ok e ?c then _ else _) else _)")
proof (cases "which e ''javac'' \<and> which e ''java''")
  case False
  then have "snd (run_java e code t w) = w" by (simp add: run_java_missing)
  with False show ?thesis by auto
next
  case True
  show ?thesis
  proof (cases "run_outcome e ?c")
    case (Returns p)
    show ?thesis
      unfolding run_java_def Let_def using True
      by (simp add: with_tempdir_spawned bind_write_text bind_perf_counter
            bind_run_returns [OF Returns] Returns compiled_ok_def ret_def
            bind_run_last spawned_append)
  next
    case (Raises x)
    show ?thesis
      unfolding run_java_def Let_def using True
      by (simp add: with_tempdir_spawned bind_write_text bind_perf_counter
            bind_run_raises [OF Raises] Raises compiled_ok_def spawned_append)
  next
    case Diverges
    show ?thesis
      unfolding run_java_def Let_def using True
      by (simp add: with_tempdir_spawned bind_write_text bind_perf_counter
            bind_run_diverges [OF Diverges] Diverges compiled_ok_def spawned_append)
  qed
qed

text \<open>
  C6. The processes each runner starts, whatever the outside answers. \<^verbatim>\<open>run_python\<close>
  starts the interpreter with \<^verbatim>\<open>-u\<close> and the file it wrote, under the time-out.
  \<^verbatim>\<open>run_cpp\<close> starts \<^verbatim>\<open>g++ -O2 -std=c++17 <source> -o <executable>\<close> and, after a
  compile call that came back with status zero, the executable alone. \<^verbatim>\<open>run_java\<close> starts
  \<^verbatim>\<open>javac <source>\<close>, the source being the class name with \<^verbatim>\<open>.java\<close> in the temporary
  directory, and, after a compile call that came back with status zero,
  \<^verbatim>\<open>java -cp <directory> <class name>\<close>.
  Nothing else is started, and nothing at all when a tool is missing or the source could
  not be written.
\<close>

theorem invocations_exact:
  "spawned (trace (snd (run_python e code t w))) =
   spawned (trace w) @
     (if write_fails e (path_join e (tmpdir e) ''main.py'') then []
      else [\<lparr>argv = [python_exe e, ''-u'', path_join e (tmpdir e) ''main.py''],
             timeout = Some t, cwd = None\<rparr>]) \<and>
   spawned (trace (snd (run_cpp e code t w))) =
   spawned (trace w) @
     (if which e ''g++'' \<and> \<not> write_fails e (path_join e (tmpdir e) ''main.cpp'')
      then \<lparr>argv = [''g++'', ''-O2'', ''-std=c++17'', path_join e (tmpdir e) ''main.cpp'', ''-o'',
                    path_join e (tmpdir e) (if os_name e = ''nt'' then ''main.exe'' else ''main'')],
            timeout = None, cwd = None\<rparr> #
           (if compiled_ok e
                 \<lparr>argv = [''g++'', ''-O2'', ''-std=c++17'', path_join e (tmpdir e) ''main.cpp'',
                          ''-o'',
                          path_join e (tmpdir e)
                            (if os_name e = ''nt'' then ''main.exe'' else ''main'')],
                  timeout = None, cwd = None\<rparr>
            then [\<lparr>argv = [path_join e (tmpdir e) (if os_name e = ''nt'' then ''main.exe'' else ''main'')],
                   timeout = Some t, cwd = None\<rparr>]
            else [])
      else []) \<and>
   spawned (trace (snd (run_java e code t w))) =
   spawned (trace w) @
     (if which e ''javac'' \<and> which e ''java'' \<and>
         \<not> write_fails e (path_join e (tmpdir e) (java_class_name code @ ''.java''))
      then \<lparr>argv = [''javac'', path_join e (tmpdir e) (java_class_name code @ ''.java'')],
            timeout = None, cwd = Some (tmpdir e)\<rparr> #
           (if compiled_ok e
                 \<lparr>argv = [''javac'', path_join e (tmpdir e) (java_class_name code @ ''.java'')],
                  timeout = None, cwd = Some (tmpdir e)\<rparr>
            then [\<lparr>argv = [''java'', ''-cp'', tmpdir e, java_class_name code],
                   timeout = Some t, cwd = None\<rparr>]
            else [])
      else [])"
  by (intro conjI run_python_calls run_cpp_calls run_java_calls)

lemma java_class_name_Hello:
  "java_class_name ''public class Hello { }'' = ''Hello''"
  by (simp add: java_class_name_def public_class_re_def is_space_def is_word_def is_ident_start_def)

theorem invocations_exact_witness:
  "spawned (trace (snd (run_python (sample_env all_tools printing_program) ''print(1)'' 5 start))) =
     [\<lparr>argv = [''/usr/bin/python3'', ''-u'', ''/tmp/tmpk3v9/main.py''], timeout = Some 5, cwd = None\<rparr>] \<and>
   spawned (trace (snd (run_cpp (sample_env all_tools printing_program) ''int main() {}'' 5 start))) =
     [\<lparr>argv = [''g++'', ''-O2'', ''-std=c++17'', ''/tmp/tmpk3v9/main.cpp'', ''-o'', ''/tmp/tmpk3v9/main''],
       timeout = None, cwd = None\<rparr>,
      \<lparr>argv = [''/tmp/tmpk3v9/main''], timeout = Some 5, cwd = None\<rparr>] \<and>
   spawned (trace (snd (run_java (sample_env all_tools printing_program) ''public class Hello { }'' 5 start))) =
     [\<lparr>argv = [''javac'', ''/tmp/tmpk3v9/Hello.java''], timeout = None, cwd = Some ''/tmp/tmpk3v9''\<rparr>,
      \<lparr>argv = [''java'', ''-cp'', ''/tmp/tmpk3v9'', ''Hello''], timeout = Some 5, cwd = None\<rparr>]"
proof -
  let ?e = "sample_env all_tools printing_program"
  from invocations_exact [where e = ?e and code = "''print(1)''" and t = 5 and w = start]
  have 1: "spawned (trace (snd (run_python ?e ''print(1)'' 5 start))) =
     [\<lparr>argv = [''/usr/bin/python3'', ''-u'', ''/tmp/tmpk3v9/main.py''], timeout = Some 5, cwd = None\<rparr>]"
    by (simp add: sample_defs)
  from invocations_exact [where e = ?e and code = "''int main() {}''" and t = 5 and w = start]
  have 2: "spawned (trace (snd (run_cpp ?e ''int main() {}'' 5 start))) =
     [\<lparr>argv = [''g++'', ''-O2'', ''-std=c++17'', ''/tmp/tmpk3v9/main.cpp'', ''-o'', ''/tmp/tmpk3v9/main''],
       timeout = None, cwd = None\<rparr>,
      \<lparr>argv = [''/tmp/tmpk3v9/main''], timeout = Some 5, cwd = None\<rparr>]"
    by (simp add: sample_defs printing_program_def compiled_ok_def outcome_defs)
  from invocations_exact [where e = ?e and code = "''public class Hello { }''" and t = 5 and w = start]
  have 3: "spawned (trace (snd (run_java ?e ''public class Hello { }'' 5 start))) =
     [\<lparr>argv = [''javac'', ''/tmp/tmpk3v9/Hello.java''], timeout = None, cwd = Some ''/tmp/tmpk3v9''\<rparr>,
      \<lparr>argv = [''java'', ''-cp'', ''/tmp/tmpk3v9'', ''Hello''], timeout = Some 5, cwd = None\<rparr>]"
    by (simp add: sample_defs printing_program_def compiled_ok_def outcome_defs java_class_name_Hello)
  from 1 2 3 show ?thesis by blast
qed

subsection \<open>The compile phase has no time-out\<close>

lemma run_cpp_compile_hangs:
  assumes "which e ''g++''"
    and "\<not> write_fails e (path_join e (tmpdir e) ''main.cpp'')"
    and "proc e (argv (compile_call e ''C++'' code)) = Hangs"
  shows "fst (run_cpp e code t w) = Diverges"
proof -
  have p: "run_outcome e
             \<lparr>argv = [''g++'', ''-O2'', ''-std=c++17'', path_join e (tmpdir e) ''main.cpp'', ''-o'',
                      path_join e (tmpdir e) (if os_name e = ''nt'' then ''main.exe'' else ''main'')],
              timeout = None, cwd = None\<rparr> = Diverges"
    using assms(3) by (simp add: compile_call_def exe_name_def run_outcome_def)
  show ?thesis
    unfolding run_cpp_def
    using assms(1,2)
    apply (simp only: if_not_P not_not if_True Let_def)
    apply (subst with_tempdir_diverges)
     apply (simp only: bind_write_text bind_perf_counter if_False bind_run_diverges [OF p])
    apply simp
    done
qed

lemma run_java_compile_hangs:
  assumes "which e ''javac''" and "which e ''java''"
    and "\<not> write_fails e (path_join e (tmpdir e) (java_class_name code @ ''.java''))"
    and "proc e (argv (compile_call e ''Java'' code)) = Hangs"
  shows "fst (run_java e code t w) = Diverges"
proof -
  have p: "run_outcome e
             \<lparr>argv = [''javac'', path_join e (tmpdir e) (java_class_name code @ ''.java'')],
              timeout = None, cwd = Some (tmpdir e)\<rparr> = Diverges"
    using assms(4) by (simp add: compile_call_def run_outcome_def)
  show ?thesis
    unfolding run_java_def
    using assms(1,2,3)
    apply (simp only: simp_thms if_False Let_def)
    apply (subst with_tempdir_diverges)
     apply (simp only: bind_write_text bind_perf_counter if_False bind_run_diverges [OF p])
    apply simp
    done
qed

text \<open>
  C8. For C++ and Java the processes of a call are the compile call and, after it, at
  most the run call. The compile call carries no time-out, the run call carries
  \<^verbatim>\<open>timeout_s\<close>; the compile call is started whenever the tools are there and the source
  was written; and a compiler that never exits keeps the call from ever returning,
  whatever \<^verbatim>\<open>timeout_s\<close> is.
\<close>

theorem compile_unbounded:
  assumes "lang = ''C++'' \<or> lang = ''Java''"
  shows "\<exists>calls.
           spawned (trace (snd (run_code e lang code timeout_s w))) = spawned (trace w) @ calls \<and>
           (calls = [] \<or> calls = [compile_call e lang code] \<or>
            calls = [compile_call e lang code, run_call e lang code timeout_s]) \<and>
           timeout (compile_call e lang code) = None \<and>
           timeout (run_call e lang code timeout_s) = Some timeout_s \<and>
           (tools_present e lang \<and>
            \<not> write_fails e (path_join e (tmpdir e) (source_name lang code)) \<longrightarrow> calls \<noteq> []) \<and>
           (tools_present e lang \<and>
            \<not> write_fails e (path_join e (tmpdir e) (source_name lang code)) \<and>
            proc e (argv (compile_call e lang code)) = Hangs \<longrightarrow>
              fst (run_code e lang code timeout_s w) = Diverges)"
  using assms
proof
  assume l: "lang = ''C++''"
  show ?thesis
    unfolding l
    by (simp add: run_code_def run_cpp_calls compile_call_def run_call_def exe_name_def
          tools_present_def source_name_def run_cpp_compile_hangs)
next
  assume l: "lang = ''Java''"
  show ?thesis
    unfolding l
    by (simp add: run_code_def run_java_calls compile_call_def run_call_def
          tools_present_def source_name_def run_java_compile_hangs)
qed

theorem compile_unbounded_witness:
  "fst (run_code (sample_env all_tools stuck_compiler) ''C++'' ''int main() {}'' 1 start) = Diverges \<and>
   timeout (compile_call (sample_env all_tools stuck_compiler) ''C++'' ''int main() {}'') = None \<and>
   timeout (run_call (sample_env all_tools stuck_compiler) ''C++'' ''int main() {}'' 1) = Some 1"
proof -
  let ?e = "sample_env all_tools stuck_compiler"
  let ?code = "''int main() {}''"
  have h1: "''C++'' = ''C++'' \<or> ''C++'' = ''Java''" by simp
  have h2: "tools_present ?e ''C++''" by (simp add: sample_defs)
  have h3: "\<not> write_fails ?e (path_join ?e (tmpdir ?e) (source_name ''C++'' ?code))"
    by (simp add: sample_defs)
  have h4: "proc ?e (argv (compile_call ?e ''C++'' ?code)) = Hangs"
    by (simp add: sample_defs stuck_compiler_def)
  from compile_unbounded [OF h1, of ?e ?code 1 start] h2 h3 h4
  show ?thesis by blast
qed

subsection \<open>The temporary directory\<close>

lemma adds_ret: "adds P (ret a)"
  by (simp add: adds_def ret_def)

lemma adds_if: "adds P m \<Longrightarrow> adds P k \<Longrightarrow> adds P (if b then m else k)"
  by simp

lemma adds_bind_perf_counter:
  assumes "\<And>v. P (ReadClock v)" and "\<And>t. adds P (f t)"
  shows "adds P (io_bind (perf_counter e) f)"
proof -
  have "\<exists>evs. trace (snd (io_bind (perf_counter e) f w)) = trace w @ evs \<and> (\<forall>ev\<in>set evs. P ev)"
    for w
  proof -
    let ?w1 = "w\<lparr>trace := trace w @ [ReadClock (clock e (ticks w))], ticks := Suc (ticks w)\<rparr>"
    from assms(2) obtain evs where
      "trace (snd (f (clock e (ticks w)) ?w1)) = trace ?w1 @ evs" "\<forall>ev\<in>set evs. P ev"
      unfolding adds_def by blast
    with assms(1) show ?thesis
      by (intro exI [of _ "ReadClock (clock e (ticks w)) # evs"]) (simp add: bind_perf_counter)
  qed
  then show ?thesis by (simp add: adds_def)
qed

lemma adds_bind_write_text:
  assumes "P (WriteText p s)" and "\<And>u. adds P (f u)"
  shows "adds P (io_bind (write_text e p s) f)"
proof -
  have "\<exists>evs. trace (snd (io_bind (write_text e p s) f w)) = trace w @ evs \<and> (\<forall>ev\<in>set evs. P ev)"
    for w
  proof (cases "write_fails e p")
    case True
    with assms(1) show ?thesis
      by (intro exI [of _ "[WriteText p s]"]) (simp add: bind_write_text)
  next
    case False
    let ?w1 = "w\<lparr>trace := trace w @ [WriteText p s], files := files w @ [p]\<rparr>"
    from assms(2) obtain evs where "trace (snd (f () ?w1)) = trace ?w1 @ evs" "\<forall>ev\<in>set evs. P ev"
      unfolding adds_def by blast
    with False assms(1) show ?thesis
      by (intro exI [of _ "WriteText p s # evs"]) (simp add: bind_write_text)
  qed
  then show ?thesis by (simp add: adds_def)
qed

lemma adds_bind_subprocess_run:
  assumes "P (Spawn c)" and "\<And>p. adds P (f p)"
  shows "adds P (io_bind (subprocess_run e c) f)"
proof -
  have "\<exists>evs. trace (snd (io_bind (subprocess_run e c) f w)) = trace w @ evs \<and> (\<forall>ev\<in>set evs. P ev)"
    for w
  proof (cases "run_outcome e c")
    case (Returns p)
    let ?w1 = "w\<lparr>trace := trace w @ [Spawn c],
                 files := files w @
                   (if proc e (argv c) = Cannot_start then [] else proc_files e (argv c))\<rparr>"
    from assms(2) obtain evs where "trace (snd (f p ?w1)) = trace ?w1 @ evs" "\<forall>ev\<in>set evs. P ev"
      unfolding adds_def by blast
    with assms(1) show ?thesis
      by (intro exI [of _ "Spawn c # evs"]) (simp add: bind_run_returns [OF Returns])
  next
    case (Raises x)
    with assms(1) show ?thesis
      by (intro exI [of _ "[Spawn c]"]) (simp add: bind_run_raises)
  next
    case Diverges
    with assms(1) show ?thesis
      by (intro exI [of _ "[Spawn c]"]) (simp add: bind_run_diverges)
  qed
  then show ?thesis by (simp add: adds_def)
qed

lemma adds_try_except_ret:
  assumes "adds P m"
  shows "adds P (try_except m x (ret r))"
  using assms by (simp add: adds_def try_except_ret_trace)



lemmas adds_rules = adds_bind_write_text adds_bind_perf_counter adds_bind_subprocess_run
  adds_try_except_ret adds_if adds_ret








subsection \<open>The class name of a Java source\<close>

lemma fold_consume_closed: "fold consume xs (False, g) = (False, g)"
  by (induction xs) simp_all

lemma fold_consume_open: "fold consume xs (True, g) = (True, g @ xs)"
  by (induction xs arbitrary: g) simp_all

lemma bt_lit:
  "bt (map Chr lit @ as) s g =
     (if prefix lit s then bt as (drop (length lit) s) (fold consume lit g) else None)"
proof (induction lit arbitrary: s g)
  case Nil
  show ?case by simp
next
  case (Cons c cs)
  show ?case by (cases s) (simp_all add: Cons.IH)
qed

lemma bt_many_committed:
  assumes "\<And>x xs g. P x \<Longrightarrow> bt as (x # xs) g = None"
  shows "bt (Many P # as) s g = bt as (dropWhile P s) (fold consume (takeWhile P s) g)"
proof (induction s arbitrary: g)
  case Nil
  show ?case by simp
next
  case (Cons x xs)
  show ?case
  proof (cases "P x")
    case True
    then show ?thesis
      by (cases "bt as (dropWhile P xs) (fold consume (takeWhile P xs) (consume x g))")
         (simp_all add: Cons.IH assms)
  next
    case False
    then show ?thesis by simp
  qed
qed

lemma bt_many_last:
  "bt [Many P, GClose] s g = Some (snd (fold consume (takeWhile P s) g))"
  by (induction s arbitrary: g) simp_all

lemma space_not_c: "is_space x \<Longrightarrow> x \<noteq> CHR ''c''"
  by (auto simp: is_space_def Let_def)

lemma space_not_ident: "is_space x \<Longrightarrow> \<not> is_ident_start x"
  by (auto simp: is_space_def is_ident_start_def Let_def)

lemma ident_is_word: "is_ident_start x \<Longrightarrow> is_word x"
  by (auto simp: is_word_def is_ident_start_def Let_def)

lemma bt_name:
  "bt [GOpen, Cls is_ident_start, Many is_word, GClose] s g =
     (case s of [] \<Rightarrow> None
      | c # cs \<Rightarrow> if is_ident_start c then Some (c # takeWhile is_word cs) else None)"
  by (cases s) (simp_all add: bt_many_last fold_consume_open)

lemma bt_spaces_name:
  "bt [Cls is_space, Many is_space, GOpen, Cls is_ident_start, Many is_word, GClose] s (False, []) =
     (case s of [] \<Rightarrow> None
      | y # r \<Rightarrow>
          if is_space y
          then bt [GOpen, Cls is_ident_start, Many is_word, GClose] (dropWhile is_space r) (False, [])
          else None)"
proof (cases s)
  case Nil
  then show ?thesis by simp
next
  case (Cons y r)
  have "bt (Many is_space # [GOpen, Cls is_ident_start, Many is_word, GClose]) r (False, []) =
        bt [GOpen, Cls is_ident_start, Many is_word, GClose] (dropWhile is_space r)
           (fold consume (takeWhile is_space r) (False, []))"
    by (rule bt_many_committed) (simp add: space_not_ident)
  with Cons show ?thesis by (simp add: fold_consume_closed)
qed

lemma bt_spaces_class:
  "bt ([Cls is_space, Many is_space] @ map Chr ''class'' @ as) s (False, []) =
     (case s of [] \<Rightarrow> None
      | x # r \<Rightarrow>
          if is_space x
          then bt (map Chr ''class'' @ as) (dropWhile is_space r) (False, [])
          else None)"
proof (cases s)
  case Nil
  then show ?thesis by simp
next
  case (Cons x r)
  have "bt (Many is_space # (map Chr ''class'' @ as)) r (False, []) =
        bt (map Chr ''class'' @ as) (dropWhile is_space r)
           (fold consume (takeWhile is_space r) (False, []))"
    by (rule bt_many_committed) (auto dest: space_not_c)
  with Cons show ?thesis by (simp add: fold_consume_closed)
qed

text \<open>The matcher on the pattern of \<^verbatim>\<open>run_java\<close>, step by step.\<close>

lemma bt_public_class:
  "bt public_class_re s (False, []) =
     (if prefix ''public'' s
      then (case drop 6 s of [] \<Rightarrow> None
            | x # r1 \<Rightarrow>
                if is_space x \<and> prefix ''class'' (dropWhile is_space r1)
                then (case drop 5 (dropWhile is_space r1) of [] \<Rightarrow> None
                      | y # r3 \<Rightarrow>
                          if is_space y
                          then (case dropWhile is_space r3 of [] \<Rightarrow> None
                                | c # cs \<Rightarrow>
                                    if is_ident_start c then Some (c # takeWhile is_word cs)
                                    else None)
                          else None)
                else None)
      else None)"
proof -
  let ?B = "[Cls is_space, Many is_space, GOpen, Cls is_ident_start, Many is_word, GClose]"
  have L6: "length ''public'' = 6" and L5: "length ''class'' = 5" by simp_all
  have 0: "public_class_re = map Chr ''public'' @ ([Cls is_space, Many is_space] @ map Chr ''class'' @ ?B)"
    by (simp add: public_class_re_def)
  have 1: "bt public_class_re s (False, []) =
      (if prefix ''public'' s
       then bt ([Cls is_space, Many is_space] @ map Chr ''class'' @ ?B) (drop 6 s) (False, [])
       else None)"
    unfolding 0 bt_lit fold_consume_closed L6 by (rule refl)
  have 2: "bt (map Chr ''class'' @ ?B) r (False, []) =
      (if prefix ''class'' r then bt ?B (drop 5 r) (False, []) else None)" for r
    unfolding bt_lit fold_consume_closed L5 by (rule refl)
  show ?thesis
    unfolding 1 bt_spaces_class 2 bt_spaces_name bt_name
    by (simp split: list.split)
qed

lemma dropWhile_all: "list_all P xs \<Longrightarrow> dropWhile P (xs @ ys) = dropWhile P ys"
  by (induction xs) simp_all

lemma takeWhile_all: "list_all P xs \<Longrightarrow> takeWhile P (xs @ ys) = xs @ takeWhile P ys"
  by (induction xs) simp_all

lemma list_all_takeWhile: "list_all P (takeWhile P xs)"
  by (induction xs) simp_all

lemma prefix_drop: "prefix xs ys \<Longrightarrow> drop k ys = r \<Longrightarrow> k = length xs \<Longrightarrow> ys = xs @ r"
  by (auto simp: prefix_def)

text \<open>The matcher, anchored, finds what the pattern denotes.\<close>

lemma bt_public_class_iff:
  "bt public_class_re u (False, []) = Some n \<longleftrightarrow>
     (\<exists>ws1 ws2 c cs rest.
        u = ''public'' @ ws1 @ ''class'' @ ws2 @ (c # cs) @ rest \<and> n = c # cs \<and>
        ws1 \<noteq> [] \<and> list_all is_space ws1 \<and>
        ws2 \<noteq> [] \<and> list_all is_space ws2 \<and>
        is_ident_start c \<and> list_all is_word cs \<and>
        (case rest of [] \<Rightarrow> True | r # _ \<Rightarrow> \<not> is_word r))"
  (is "?L \<longleftrightarrow> ?R")
proof
  assume ?L
  then obtain x r1 y r3 c cs where
    p: "prefix ''public'' u" and d6: "drop 6 u = x # r1" and sx: "is_space x"
    and pc: "prefix ''class'' (dropWhile is_space r1)"
    and d5: "drop 5 (dropWhile is_space r1) = y # r3" and sy: "is_space y"
    and dw: "dropWhile is_space r3 = c # cs" and ic: "is_ident_start c"
    and n: "n = c # takeWhile is_word cs"
    unfolding bt_public_class by (auto split: if_splits list.splits)
  have u: "u = ''public'' @ x # r1" by (rule prefix_drop [OF p d6]) simp
  have r1: "r1 = takeWhile is_space r1 @ dropWhile is_space r1" by simp
  have r2: "dropWhile is_space r1 = ''class'' @ y # r3" by (rule prefix_drop [OF pc d5]) simp
  have "r3 = takeWhile is_space r3 @ dropWhile is_space r3" by simp
  with dw have r3: "r3 = takeWhile is_space r3 @ c # cs" by simp
  have cs: "cs = takeWhile is_word cs @ dropWhile is_word cs" by simp
  have rest: "(case dropWhile is_word cs of [] \<Rightarrow> True | r # _ \<Rightarrow> \<not> is_word r)"
    by (auto split: list.split simp: dropWhile_eq_Cons_conv)
  have "u = ''public'' @ (x # takeWhile is_space r1) @ ''class'' @ (y # takeWhile is_space r3) @
              (c # takeWhile is_word cs) @ dropWhile is_word cs"
    by (subst u, subst r1, subst r2, subst r3, subst cs) simp
  with n sx sy ic rest show ?R
    by (intro exI [of _ "x # takeWhile is_space r1"] exI [of _ "y # takeWhile is_space r3"]
          exI [of _ c] exI [of _ "takeWhile is_word cs"] exI [of _ "dropWhile is_word cs"])
       (simp add: list_all_takeWhile)
next
  assume ?R
  then obtain ws1 ws2 c cs rest where
    u: "u = ''public'' @ ws1 @ ''class'' @ ws2 @ (c # cs) @ rest" and n: "n = c # cs"
    and w1: "ws1 \<noteq> []" "list_all is_space ws1" and w2: "ws2 \<noteq> []" "list_all is_space ws2"
    and ic: "is_ident_start c" and wc: "list_all is_word cs"
    and rest: "(case rest of [] \<Rightarrow> True | r # _ \<Rightarrow> \<not> is_word r)"
    by blast
  from w1 obtain x w1' where ws1: "ws1 = x # w1'" "is_space x" "list_all is_space w1'"
    by (cases ws1) auto
  from w2 obtain y w2' where ws2: "ws2 = y # w2'" "is_space y" "list_all is_space w2'"
    by (cases ws2) auto
  have nc: "\<not> is_space CHR ''c''" by (simp add: is_space_def Let_def)
  have p: "prefix ''public'' u" by (simp add: u)
  have d6: "drop 6 u = x # (w1' @ ''class'' @ ws2 @ (c # cs) @ rest)" by (simp add: u ws1)
  have dw1: "dropWhile is_space (w1' @ ''class'' @ ws2 @ (c # cs) @ rest) =
               ''class'' @ ws2 @ (c # cs) @ rest"
    using ws1(3) nc by (simp add: dropWhile_all)
  have d5: "drop 5 (''class'' @ ws2 @ (c # cs) @ rest) = y # (w2' @ (c # cs) @ rest)"
    by (simp add: ws2)
  have dw2: "dropWhile is_space (w2' @ (c # cs) @ rest) = c # (cs @ rest)"
  proof -
    from ic have "\<not> is_space c" using space_not_ident by blast
    with ws2(3) show ?thesis by (simp add: dropWhile_all)
  qed
  have tw: "takeWhile is_word (cs @ rest) = cs"
    using wc rest by (cases rest) (simp_all add: takeWhile_all list_all_iff)
  show ?L
    unfolding bt_public_class d6 list.case dw1 d5 dw2 tw n using p ws1(2) ws2(2) ic
    by simp
qed

lemma re_search_None:
  "re_search p s = None \<longleftrightarrow> (\<forall>i\<le>length s. bt p (drop i s) (False, []) = None)"
proof (induction s)
  case Nil
  show ?case by simp
next
  case (Cons x xs)
  show ?case
  proof
    assume a: "re_search p (x # xs) = None"
    then have h: "bt p (x # xs) (False, []) = None" and t: "re_search p xs = None"
      by (auto split: option.splits)
    show "\<forall>i\<le>length (x # xs). bt p (drop i (x # xs)) (False, []) = None"
    proof (intro allI impI)
      fix i assume "i \<le> length (x # xs)"
      then show "bt p (drop i (x # xs)) (False, []) = None"
        using h t Cons.IH by (cases i) auto
    qed
  next
    assume a: "\<forall>i\<le>length (x # xs). bt p (drop i (x # xs)) (False, []) = None"
    from a [rule_format, of 0] have h: "bt p (x # xs) (False, []) = None" by simp
    have "\<forall>i\<le>length xs. bt p (drop i xs) (False, []) = None"
    proof (intro allI impI)
      fix i assume "i \<le> length xs"
      with a [rule_format, of "Suc i"] show "bt p (drop i xs) (False, []) = None" by simp
    qed
    with h Cons.IH show "re_search p (x # xs) = None" by simp
  qed
qed

lemma re_search_first:
  assumes "i \<le> length s" and "bt p (drop i s) (False, []) = Some n"
    and "\<forall>j<i. bt p (drop j s) (False, []) = None"
  shows "re_search p s = Some n"
  using assms
proof (induction s arbitrary: i)
  case Nil
  then show ?case by simp
next
  case (Cons x xs)
  show ?case
  proof (cases i)
    case 0
    with Cons.prems show ?thesis by simp
  next
    case (Suc k)
    with Cons.prems have h: "bt p (x # xs) (False, []) = None" by auto
    from Suc Cons.prems have k: "k \<le> length xs" "bt p (drop k xs) (False, []) = Some n" by simp_all
    have "\<forall>j<k. bt p (drop j xs) (False, []) = None"
    proof (intro allI impI)
      fix j assume "j < k"
      with Suc Cons.prems(3) [rule_format, of "Suc j"] show "bt p (drop j xs) (False, []) = None"
        by simp
    qed
    with Cons.IH k have "re_search p xs = Some n" by blast
    with h show ?thesis by simp
  qed
qed

lemma java_class_name_first:
  assumes "pc_match code i n" and "\<forall>j<i. \<forall>m. \<not> pc_match code j m"
  shows "java_class_name code = n"
proof -
  from assms(1) have i: "i \<le> length code" and b: "bt public_class_re (drop i code) (False, []) = Some n"
    unfolding pc_match_def bt_public_class_iff by blast+
  have "\<forall>j<i. bt public_class_re (drop j code) (False, []) = None"
  proof (intro allI impI)
    fix j assume j: "j < i"
    show "bt public_class_re (drop j code) (False, []) = None"
    proof (cases "bt public_class_re (drop j code) (False, [])")
      case None
      then show ?thesis .
    next
      case (Some m)
      with j i have "pc_match code j m"
        unfolding pc_match_def bt_public_class_iff by simp
      with assms(2) j show ?thesis by blast
    qed
  qed
  from re_search_first [OF i b this] show ?thesis by (simp add: java_class_name_def)
qed

lemma java_class_name_fallback:
  assumes "\<forall>i n. \<not> pc_match code i n"
  shows "java_class_name code = ''Main''"
proof -
  have "\<forall>i\<le>length code. bt public_class_re (drop i code) (False, []) = None"
  proof (intro allI impI)
    fix i assume i: "i \<le> length code"
    show "bt public_class_re (drop i code) (False, []) = None"
    proof (cases "bt public_class_re (drop i code) (False, [])")
      case None
      then show ?thesis .
    next
      case (Some m)
      with i have "pc_match code i m"
        unfolding pc_match_def bt_public_class_iff by simp
      with assms show ?thesis by blast
    qed
  qed
  then have "re_search public_class_re code = None" by (simp add: re_search_None)
  then show ?thesis by (simp add: java_class_name_def)
qed

lemma pc_match_bt:
  "pc_match s i n \<longleftrightarrow> i \<le> length s \<and> bt public_class_re (drop i s) (False, []) = Some n"
  unfolding pc_match_def bt_public_class_iff by (rule refl)

lemma re_search_Some_bt:
  "re_search p s = Some n \<Longrightarrow> \<exists>i\<le>length s. bt p (drop i s) (False, []) = Some n"
proof (induction s)
  case Nil
  then show ?case by simp
next
  case (Cons x xs)
  show ?case
  proof (cases "bt p (x # xs) (False, [])")
    case (Some m)
    with Cons.prems have "bt p (drop 0 (x # xs)) (False, []) = Some n" by simp
    then show ?thesis by blast
  next
    case None
    with Cons.prems have "re_search p xs = Some n" by simp
    with Cons.IH obtain i where "i \<le> length xs" "bt p (drop i xs) (False, []) = Some n" by blast
    then have "Suc i \<le> length (x # xs)" "bt p (drop (Suc i) (x # xs)) (False, []) = Some n"
      by simp_all
    then show ?thesis by blast
  qed
qed

lemma java_class_name_word: "list_all is_word (java_class_name code)"
proof (cases "re_search public_class_re code")
  case None
  then show ?thesis by (simp add: java_class_name_def is_word_def)
next
  case (Some n)
  from re_search_Some_bt [OF Some] obtain i where
    "bt public_class_re (drop i code) (False, []) = Some n" by blast
  then have "list_all is_word n"
    unfolding bt_public_class_iff by (auto simp: ident_is_word)
  with Some show ?thesis by (simp add: java_class_name_def)
qed

lemma word_not_sep: "is_word c \<Longrightarrow> [c] \<noteq> sep e"
  by (auto simp: sep_def is_word_def Let_def)

lemma basename_join:
  assumes "\<forall>c\<in>set n. [c] \<noteq> sep e"
  shows "basename e (path_join e d n) = n"
proof -
  obtain c0 where c0: "sep e = [c0]" by (cases "os_name e = ''nt''") (auto simp: sep_def)
  have "takeWhile (\<lambda>c. [c] \<noteq> sep e) (rev n @ c0 # rev d) = rev n"
    using assms c0 by (simp add: takeWhile_append2 takeWhile_tail)
  then show ?thesis by (simp add: basename_def path_join_def c0)
qed

lemma java_source_basename:
  "basename e (path_join e (tmpdir e) (java_class_name code @ ''.java'')) =
     java_class_name code @ ''.java''"
proof (rule basename_join)
  have "\<forall>c\<in>set (java_class_name code). [c] \<noteq> sep e"
    using java_class_name_word [of code] word_not_sep by (auto simp: list_all_iff)
  moreover have "\<forall>c\<in>set ''.java''. [c] \<noteq> sep e" by (auto simp: sep_def)
  ultimately show "\<forall>c\<in>set (java_class_name code @ ''.java''). [c] \<noteq> sep e" by auto
qed

lemma adds_grows: "adds P m \<Longrightarrow> \<exists>evs. trace (snd (m w)) = trace w @ evs"
  unfolding adds_def by blast

lemma bind_write_text_first:
  assumes "\<And>u. adds P (f u)"
  shows "\<exists>evs. trace (snd (io_bind (write_text e p s) f w)) = trace w @ WriteText p s # evs"
proof (cases "write_fails e p")
  case True
  then show ?thesis by (simp add: bind_write_text)
next
  case False
  let ?w1 = "w\<lparr>trace := trace w @ [WriteText p s], files := files w @ [p]\<rparr>"
  from adds_grows [OF assms, of "()" ?w1] obtain evs where
    "trace (snd (f () ?w1)) = trace ?w1 @ evs" by blast
  with False show ?thesis by (simp add: bind_write_text)
qed

lemma with_tempdir_first:
  assumes "\<And>w. \<exists>evs. trace (snd (body (tmpdir e) w)) = trace w @ ev # evs"
  shows "\<exists>evs. trace (snd (with_tempdir e body w)) = trace w @ MkTemp (tmpdir e) # ev # evs"
proof -
  let ?w1 = "w\<lparr>files := files w @ [tmpdir e], trace := trace w @ [MkTemp (tmpdir e)]\<rparr>"
  from assms [of ?w1] obtain evs where "trace (snd (body (tmpdir e) ?w1)) = trace ?w1 @ ev # evs"
    by blast
  then show ?thesis
    by (cases "body (tmpdir e) ?w1") (auto simp: with_tempdir_def Let_def split: outcome.split)
qed

lemma run_java_writes:
  assumes "which e ''javac''" and "which e ''java''"
  shows "\<exists>evs. trace (snd (run_java e code t w)) =
           trace w @ MkTemp (tmpdir e) #
             WriteText (path_join e (tmpdir e) (java_class_name code @ ''.java'')) code # evs"
  unfolding run_java_def Let_def using assms
  apply (simp only: simp_thms if_False)
  apply (rule with_tempdir_first)
  apply (rule bind_write_text_first [where P = "\<lambda>ev. True"])
  apply (intro adds_rules; simp)
  done

text \<open>
  C5. The class name of \<^verbatim>\<open>run_java\<close> is the name captured at the leftmost offset of
  the source where the public-class pattern matches, and \<^verbatim>\<open>Main\<close> when the pattern
  matches nowhere. The file written is that name with \<^verbatim>\<open>.java\<close> in the temporary
  directory, and that is its base name (the name holds no path separator); the compile
  call names that file and the run call names the class.
\<close>

theorem java_class_name_first_match:
  "(pc_match code i n \<and> (\<forall>j<i. \<forall>m. \<not> pc_match code j m) \<longrightarrow> java_class_name code = n) \<and>
   ((\<forall>i n. \<not> pc_match code i n) \<longrightarrow> java_class_name code = ''Main'') \<and>
   basename e (path_join e (tmpdir e) (java_class_name code @ ''.java'')) =
     java_class_name code @ ''.java'' \<and>
   (which e ''javac'' \<and> which e ''java'' \<longrightarrow>
      (\<exists>evs. trace (snd (run_java e code t w)) =
         trace w @ MkTemp (tmpdir e) #
           WriteText (path_join e (tmpdir e) (java_class_name code @ ''.java'')) code # evs)) \<and>
   (\<exists>calls. spawned (trace (snd (run_java e code t w))) = spawned (trace w) @ calls \<and>
      (\<forall>c\<in>set calls.
         argv c = [''javac'', path_join e (tmpdir e) (java_class_name code @ ''.java'')] \<or>
         argv c = [''java'', ''-cp'', tmpdir e, java_class_name code]))"
proof (intro conjI impI)
  assume "pc_match code i n \<and> (\<forall>j<i. \<forall>m. \<not> pc_match code j m)"
  then show "java_class_name code = n" using java_class_name_first by blast
next
  assume "\<forall>i n. \<not> pc_match code i n"
  then show "java_class_name code = ''Main''" by (rule java_class_name_fallback)
next
  show "basename e (path_join e (tmpdir e) (java_class_name code @ ''.java'')) =
          java_class_name code @ ''.java''"
    by (rule java_source_basename)
next
  assume "which e ''javac'' \<and> which e ''java''"
  then show "\<exists>evs. trace (snd (run_java e code t w)) =
         trace w @ MkTemp (tmpdir e) #
           WriteText (path_join e (tmpdir e) (java_class_name code @ ''.java'')) code # evs"
    using run_java_writes by blast
next
  show "\<exists>calls. spawned (trace (snd (run_java e code t w))) = spawned (trace w) @ calls \<and>
      (\<forall>c\<in>set calls.
         argv c = [''javac'', path_join e (tmpdir e) (java_class_name code @ ''.java'')] \<or>
         argv c = [''java'', ''-cp'', tmpdir e, java_class_name code])"
    by (auto simp: run_java_calls)
qed

lemmas class_defs = is_space_def is_word_def is_ident_start_def Let_def

theorem java_class_name_first_match_witness:
  "pc_match ''// public class9 public class Hello { }'' 17 ''Hello'' \<and>
   java_class_name ''// public class9 public class Hello { }'' = ''Hello'' \<and>
   java_class_name ''class Hello { }'' = ''Main'' \<and>
   (\<exists>evs. trace (snd (run_java (sample_env all_tools printing_program)
                          ''class Hello { }'' 5 start)) =
           MkTemp ''/tmp/tmpk3v9'' # WriteText ''/tmp/tmpk3v9/Main.java'' ''class Hello { }'' # evs)"
proof -
  let ?c1 = "''// public class9 public class Hello { }''"
  let ?c2 = "''class Hello { }''"
  let ?e = "sample_env all_tools printing_program"
  have m: "pc_match ?c1 17 ''Hello''"
    unfolding pc_match_bt bt_public_class by (simp add: class_defs)
  have "\<forall>j<17. bt public_class_re (drop j ?c1) (False, []) = None"
    by (simp add: eval_nat_numeral All_less_Suc bt_public_class class_defs)
  then have f: "\<forall>j<17. \<forall>m. \<not> pc_match ?c1 j m"
    by (simp add: pc_match_bt)
  from java_class_name_first_match [of ?c1 17 "''Hello''"] m f
  have 1: "java_class_name ?c1 = ''Hello''" by blast
  have "re_search public_class_re ?c2 = None"
    by (simp add: bt_public_class)
  then have r: "\<forall>i\<le>length ?c2. bt public_class_re (drop i ?c2) (False, []) = None"
    by (rule re_search_None [THEN iffD1])
  have g: "\<forall>i n. \<not> pc_match ?c2 i n"
  proof (intro allI notI)
    fix i n assume "pc_match ?c2 i n"
    then have le: "i \<le> length ?c2"
      and sm: "bt public_class_re (drop i ?c2) (False, []) = Some n"
      unfolding pc_match_bt by blast+
    from r [rule_format, OF le] sm show False by (simp only: option.distinct)
  qed
  from java_class_name_first_match [of ?c2] g
  have 2: "java_class_name ?c2 = ''Main''" by blast
  have h: "which ?e ''javac'' \<and> which ?e ''java''" by (simp add: sample_defs)
  from java_class_name_first_match [of ?c2 _ _ ?e 5 start] h
  have "\<exists>evs. trace (snd (run_java ?e ?c2 5 start)) =
         trace start @ MkTemp (tmpdir ?e) #
           WriteText (path_join ?e (tmpdir ?e) (java_class_name ?c2 @ ''.java'')) ?c2 # evs"
    by blast
  then have 3: "\<exists>evs. trace (snd (run_java ?e ?c2 5 start)) =
           MkTemp ''/tmp/tmpk3v9'' # WriteText ''/tmp/tmpk3v9/Main.java'' ?c2 # evs"
    by (simp add: 2 sample_defs)
  from m 1 2 3 show ?thesis by blast
qed

end
